theory Spec2Isabelle
  imports Complex_Main "HOL-Library.AList" "HOL-Library.Product_Lexorder"
begin

section \<open>JavaScript values\<close>

text \<open>
  The values that travel through the broker: what \<open>JSON.parse\<close> returns and what
  \<open>JSON.stringify\<close> takes. An object value is the list of its own entries in insertion
  order (\<open>Object.entries\<close>; integer-like keys, which JavaScript lists first, are not
  treated apart). Strings are byte strings (UTF-8), so \<open>Buffer.byteLength(s, 'utf-8')\<close>
  is \<open>length s\<close>.
\<close>

datatype jsval =
    JUndefined
  | JNull
  | JBool bool
  | JNum real
  | JStr string
  | JArr "jsval list"
  | JObj "(string \<times> jsval) list"

type_synonym jsobj = "(string \<times> jsval) list"

text \<open>
  An object that the code fills by assignment has its own entries and a prototype:
  \<open>Object.prototype\<close> for an object literal, until an assignment to the key \<open>__proto__\<close>
  replaces it. An assignment \<open>obj[k] = v\<close> creates or overwrites the own entry \<open>k\<close>
  (\<open>AList.update\<close>: in place, or appended), with one exception. When \<open>k\<close> is \<open>__proto__\<close>
  and the lookup of that name ends at the accessor of \<open>Object.prototype\<close> (the object
  has no own entry of that name, it still has a prototype, and an object installed as
  prototype has no own entry \<open>__proto__\<close> either), the setter runs instead: an object,
  an array or \<open>null\<close> becomes the prototype, any other value is dropped, and no own entry
  is created. \<open>JSON.parse\<close> gives an object the own entry \<open>__proto__\<close> when its text has
  that key.
\<close>

datatype prototype = ObjectPrototype | NullPrototype | ValuePrototype jsval

record jobject =
  props :: jsobj
  proto :: prototype

definition new_object :: "jsobj \<Rightarrow> jobject" where
  "new_object kvs = \<lparr>props = kvs, proto = ObjectPrototype\<rparr>"

definition reaches_proto_setter :: "jobject \<Rightarrow> bool" where
  "reaches_proto_setter obj =
     (map_of (props obj) ''__proto__'' = None \<and>
      (case proto obj of
         ObjectPrototype \<Rightarrow> True
       | NullPrototype \<Rightarrow> False
       | ValuePrototype v \<Rightarrow>
           (case v of JObj kvs \<Rightarrow> map_of kvs ''__proto__'' = None | _ \<Rightarrow> True)))"

definition js_assign :: "string \<Rightarrow> jsval \<Rightarrow> jobject \<Rightarrow> jobject" where
  "js_assign k v obj =
     (if k = ''__proto__'' \<and> reaches_proto_setter obj then
        (case v of
           JObj kvs \<Rightarrow> obj\<lparr>proto := ValuePrototype v\<rparr>
         | JArr xs \<Rightarrow> obj\<lparr>proto := ValuePrototype v\<rparr>
         | JNull \<Rightarrow> obj\<lparr>proto := NullPrototype\<rparr>
         | _ \<Rightarrow> obj)
      else obj\<lparr>props := AList.update k v (props obj)\<rparr>)"


section \<open>Key namer (src/core/keys.ts)\<close>

datatype kind = Sm | Topic | Sub | Retry | Dlq

fun kind_str :: "kind \<Rightarrow> string" where
  "kind_str Sm = ''sm''"
| "kind_str Topic = ''topic''"
| "kind_str Sub = ''sub''"
| "kind_str Retry = ''retry''"
| "kind_str Dlq = ''dlq''"

record KeyParams =
  tenantId :: string
  namespace :: string
  kind :: kind
  name :: string

definition buildKey :: "KeyParams \<Rightarrow> string \<Rightarrow> string" where
  "buildKey params keyPrefix =
     keyPrefix @ tenantId params @ '':'' @ namespace params @ '':'' @
     kind_str (kind params) @ '':'' @ name params"

definition buildTopicKey :: "string \<Rightarrow> string \<Rightarrow> string \<Rightarrow> string \<Rightarrow> string" where
  "buildTopicKey topic tenant ns keyPrefix =
     buildKey \<lparr>tenantId = tenant, namespace = ns, kind = Topic, name = topic\<rparr> keyPrefix"

definition buildConsumerGroup :: "string \<Rightarrow> string" where
  "buildConsumerGroup subscription = ''sub:'' @ subscription"

definition buildRetryKey :: "string \<Rightarrow> string \<Rightarrow> string \<Rightarrow> string \<Rightarrow> string \<Rightarrow> string" where
  "buildRetryKey topic subscription tenant ns keyPrefix =
     buildKey \<lparr>tenantId = tenant, namespace = ns, kind = Retry,
               name = topic @ '':'' @ subscription\<rparr> keyPrefix"

definition buildDlqKey :: "string \<Rightarrow> string \<Rightarrow> string \<Rightarrow> string \<Rightarrow> string" where
  "buildDlqKey topic tenant ns keyPrefix =
     buildKey \<lparr>tenantId = tenant, namespace = ns, kind = Dlq, name = topic\<rparr> keyPrefix"

section \<open>Library functions and readings of the environment\<close>

text \<open>
  \<open>JSON.stringify\<close>, \<open>JSON.parse\<close> (\<open>None\<close> when it throws), the SHA-256 hex digest and
  \<open>Number\<close> on strings (\<open>None\<close> for \<open>NaN\<close>) belong to the runtime, not to the repository:
  every definition that calls one takes them in a record \<open>lib\<close>, and theorems hold for
  all of them unless a hypothesis says otherwise. The clock and the random source are
  read from a record \<open>env\<close>.
\<close>

record lib =
  JSON_stringify :: "jsval \<Rightarrow> string"
  JSON_parse :: "string \<Rightarrow> jsval option"
  sha256_hex :: "string \<Rightarrow> string"
  Number_of :: "string \<Rightarrow> int option"

record env =
  nowMs :: nat
  random :: real
  isoNow :: string

text \<open>Decimal rendering of a non-negative integer (\<open>toString()\<close>, template literals).\<close>

definition digit_char :: "nat \<Rightarrow> char" where
  "digit_char d =
     (if d = 0 then CHR ''0'' else if d = 1 then CHR ''1'' else if d = 2 then CHR ''2''
      else if d = 3 then CHR ''3'' else if d = 4 then CHR ''4'' else if d = 5 then CHR ''5''
      else if d = 6 then CHR ''6'' else if d = 7 then CHR ''7'' else if d = 8 then CHR ''8''
      else CHR ''9'')"

function show_nat :: "nat \<Rightarrow> string" where
  "show_nat n = (if n < 10 then [digit_char n] else show_nat (n div 10) @ [digit_char (n mod 10)])"
  by pat_completeness auto
termination
  by (relation "measure id") auto

declare show_nat.simps [simp del]

definition show_int :: "int \<Rightarrow> string" where
  "show_int i = (if i < 0 then ''-'' @ show_nat (nat (- i)) else show_nat (nat i))"

text \<open>Array indexing: \<open>undefined\<close> outside the array.\<close>

definition js_index :: "'a list \<Rightarrow> int \<Rightarrow> 'a option" where
  "js_index xs i = (if 0 \<le> i \<and> i < int (length xs) then Some (xs ! nat i) else None)"

section \<open>Codec (src/core/codecs.ts)\<close>

fun toFlatArray :: "lib \<Rightarrow> jsobj \<Rightarrow> string list" where
  "toFlatArray js [] = []"
| "toFlatArray js ((k, v) # rest) =
     k # (case v of JStr s \<Rightarrow> s | _ \<Rightarrow> JSON_stringify js v) # toFlatArray js rest"

text \<open>
  The loop of \<open>fromFlatArray\<close>, two elements at a time, assigning into \<open>{}\<close>. A trailing
  key has the value \<open>undefined\<close>, on which \<open>JSON.parse\<close> throws, so \<open>undefined\<close> is
  assigned.
\<close>

fun fromFlatArray_loop :: "lib \<Rightarrow> string list \<Rightarrow> jobject \<Rightarrow> jobject" where
  "fromFlatArray_loop js [] obj = obj"
| "fromFlatArray_loop js [key] obj = js_assign key JUndefined obj"
| "fromFlatArray_loop js (key # val # rest) obj =
     fromFlatArray_loop js rest
       (js_assign key (case JSON_parse js val of Some j \<Rightarrow> j | None \<Rightarrow> JStr val) obj)"

definition fromFlatArray :: "lib \<Rightarrow> string list \<Rightarrow> jobject" where
  "fromFlatArray js arr = fromFlatArray_loop js arr (new_object [])"

definition hashValue :: "lib \<Rightarrow> jsval \<Rightarrow> string" where
  "hashValue js v = sha256_hex js (JSON_stringify js v)"

section \<open>Backoff (src/core/time.ts)\<close>

text \<open>\<open>a || b\<close> on numbers that may be \<open>undefined\<close>: \<open>undefined\<close> and \<open>0\<close> are falsy.\<close>

definition num_or :: "real option \<Rightarrow> real option \<Rightarrow> real option" where
  "num_or a b = (case a of None \<Rightarrow> b | Some x \<Rightarrow> if x = 0 then b else Some x)"

definition num_or_default :: "real option \<Rightarrow> real \<Rightarrow> real" where
  "num_or_default a d = (case a of None \<Rightarrow> d | Some x \<Rightarrow> if x = 0 then d else x)"

definition calculateBackoff :: "real \<Rightarrow> int \<Rightarrow> real list \<Rightarrow> bool \<Rightarrow> real" where
  "calculateBackoff rnd attempt backoffMs jitter =
     (let idx = min attempt (int (length backoffMs) - 1);
          baseDelay = num_or_default
            (num_or (js_index backoffMs idx) (js_index backoffMs (int (length backoffMs) - 1)))
            1000
      in if jitter then (let jitterAmount = baseDelay * 0.2 in baseDelay + rnd * jitterAmount)
         else baseDelay)"

section \<open>The emulated hot store (src/core/mongoAdapter.ts)\<close>

text \<open>
  The collections of the adapter. A \<open>kv\<close> document is found by its key (unique index);
  of its fields the model keeps \<open>type\<close>, \<open>fields\<close> and \<open>members\<close>, each \<open>None\<close> when the
  document does not have it. A \<open>streams\<close> document keeps \<open>_id\<close>, \<open>stream\<close>, \<open>id\<close>,
  \<open>timestamp\<close>, \<open>sequence\<close>, \<open>fields\<close> and \<open>pending\<close>. An update path such as
  \<open>fields.<field>\<close> or \<open>pending.<group>.<consumer>\<close> addresses one entry (the names
  hold no dot). Audit dates that no operation reads (\<open>createdAt\<close>, \<open>updatedAt\<close>) are left
  out. The collection is the list of its documents in insertion order, and a sort keeps
  insertion order among equal keys.

  \<open>xadd\<close> writes \<open>pending: []\<close>, an empty array: \<open>PendingArray\<close>. The paths
  \<open>pending.<group>\<close> and \<open>pending.<group>.<consumer>\<close> of the other operations
  address fields of an object. Below the array the database finds no field
  \<open>pending.<group>\<close> in a query, has nothing to remove for an \<open>$unset\<close>, and refuses a
  \<open>$set\<close>, which cannot create a field in an array: the update throws (\<open>PathNotViable\<close>)
  and the document stays as it is. \<open>PendingObject\<close> is the shape the paths are written
  for, an object from group to the object from consumer to delivery date, with the
  entries the database sets, removes and finds in it.
\<close>

datatype error =
    PayloadTooLarge nat nat
  | DuplicateKey
  | PathNotViable
  | StoreError string

datatype pending_val =
    PendingArray
  | PendingObject "(string \<times> (string \<times> nat) list) list"

record kvdoc =
  kv_type :: "string option"
  kv_fields :: "(string \<times> string) list option"
  kv_members :: "(string \<times> real) list option"

record sdoc =
  oid :: nat
  stream :: string
  doc_id :: string
  timestamp :: nat
  sequence :: nat
  doc_fields :: "(string \<times> string option) list"
  pending :: pending_val

record gdoc =
  g_stream :: string
  g_group :: string
  g_lastId :: string

record mongo =
  keyPrefix :: string
  kvCollection :: "string \<rightharpoonup> kvdoc"
  streamsCollection :: "sdoc list"
  groupsCollection :: "gdoc list"
  nextOid :: nat

datatype jarg = AStr string | ANum int

text \<open>\<open>args.indexOf(x)\<close>, \<open>String(x)\<close> and \<open>Number(x)\<close> on an argument that may be missing.\<close>

fun indexOf_from :: "'a list \<Rightarrow> 'a \<Rightarrow> int \<Rightarrow> int" where
  "indexOf_from [] x i = - 1"
| "indexOf_from (a # rest) x i = (if a = x then i else indexOf_from rest x (i + 1))"

definition indexOf :: "'a list \<Rightarrow> 'a \<Rightarrow> int" where
  "indexOf args x = indexOf_from args x 0"

fun arg_str :: "jarg option \<Rightarrow> string" where
  "arg_str None = ''undefined''"
| "arg_str (Some (AStr s)) = s"
| "arg_str (Some (ANum n)) = show_int n"

fun arg_num :: "lib \<Rightarrow> jarg option \<Rightarrow> int option" where
  "arg_num js None = None"
| "arg_num js (Some (ANum n)) = Some n"
| "arg_num js (Some (AStr s)) = Number_of js s"

text \<open>\<open>cursor.limit(n)\<close>: \<open>0\<close> is no limit, a negative number counts as its absolute value.\<close>

definition limit :: "int \<Rightarrow> 'a list \<Rightarrow> 'a list" where
  "limit n xs = (if n = 0 then xs else take (nat \<bar>n\<bar>) xs)"

definition sort_ts_seq :: "sdoc list \<Rightarrow> sdoc list" where
  "sort_ts_seq docs = sort_key (\<lambda>d. (timestamp d, sequence d)) docs"

fun update_first :: "('a \<Rightarrow> bool) \<Rightarrow> ('a \<Rightarrow> 'a) \<Rightarrow> 'a list \<Rightarrow> 'a list" where
  "update_first P f [] = []"
| "update_first P f (x # xs) = (if P x then f x # xs else x # update_first P f xs)"

fun flat_fields :: "(string \<times> string option) list \<Rightarrow> string option list" where
  "flat_fields [] = []"
| "flat_fields ((k, v) # rest) = Some k # v # flat_fields rest"

subsection \<open>Hashes and sorted sets\<close>

definition empty_kvdoc :: kvdoc where
  "empty_kvdoc = \<lparr>kv_type = None, kv_fields = None, kv_members = None\<rparr>"

definition hset :: "mongo \<Rightarrow> string \<Rightarrow> string \<Rightarrow> string \<Rightarrow> nat \<times> mongo" where
  "hset m key field val =
     (let fullKey = keyPrefix m @ key;
          doc = (case kvCollection m fullKey of None \<Rightarrow> empty_kvdoc | Some d \<Rightarrow> d);
          fs = (case kv_fields doc of None \<Rightarrow> [] | Some fs \<Rightarrow> fs);
          doc' = doc\<lparr>kv_type := Some ''hash'', kv_fields := Some (AList.update field val fs)\<rparr>
      in (1, m\<lparr>kvCollection := (kvCollection m)(fullKey \<mapsto> doc')\<rparr>))"



text \<open>
  \<open>zadd\<close> upserts with the filter \<open>{key, type: 'zset'}\<close>: on a key held by a document of
  another type the insert violates the unique index on \<open>key\<close>.
\<close>

definition zadd :: "mongo \<Rightarrow> string \<Rightarrow> real \<Rightarrow> string \<Rightarrow> (error + nat) \<times> mongo" where
  "zadd m key score member =
     (let fullKey = keyPrefix m @ key in
      case kvCollection m fullKey of
        None \<Rightarrow>
          (Inr 1, m\<lparr>kvCollection := (kvCollection m)(fullKey \<mapsto>
             empty_kvdoc\<lparr>kv_type := Some ''zset'', kv_members := Some [(member, score)]\<rparr>)\<rparr>)
      | Some doc \<Rightarrow>
          if kv_type doc = Some ''zset'' then
            (let ms = (case kv_members doc of None \<Rightarrow> [] | Some ms \<Rightarrow> ms) in
             (Inr 1, m\<lparr>kvCollection := (kvCollection m)(fullKey \<mapsto>
                doc\<lparr>kv_members := Some (AList.update member score ms)\<rparr>)\<rparr>))
          else (Inl DuplicateKey, m))"

text \<open>\<open>array.slice(0, n)\<close>: \<open>NaN\<close> counts as \<open>0\<close>, a negative \<open>n\<close> counts from the end.\<close>

definition slice0 :: "int option \<Rightarrow> 'a list \<Rightarrow> 'a list" where
  "slice0 n xs =
     (case n of
        None \<Rightarrow> []
      | Some k \<Rightarrow> if k \<ge> 0 then take (nat k) xs else take (nat (int (length xs) + k)) xs)"

definition zrangebyscore :: "lib \<Rightarrow> mongo \<Rightarrow> string \<Rightarrow> string \<Rightarrow> string \<Rightarrow> string list \<Rightarrow> string list" where
  "zrangebyscore js m key mn mx args =
     (let fullKey = keyPrefix m @ key in
      case kvCollection m fullKey of
        None \<Rightarrow> []
      | Some doc \<Rightarrow>
          if kv_type doc = Some ''zset'' then
            (case kv_members doc of
               None \<Rightarrow> []
             | Some ms \<Rightarrow>
                 (let above = (\<lambda>sc. if mn = ''-inf'' then True
                                 else (case Number_of js mn of None \<Rightarrow> False
                                       | Some lo \<Rightarrow> sc \<ge> real_of_int lo));
                      below = (\<lambda>sc. if mx = ''+inf'' then True
                                 else (case Number_of js mx of None \<Rightarrow> False
                                       | Some hi \<Rightarrow> sc \<le> real_of_int hi));
                      limitIdx = indexOf args ''LIMIT'';
                      lmt = (if limitIdx \<ge> 0
                             then (case js_index args (limitIdx + 2) of
                                     None \<Rightarrow> None | Some a \<Rightarrow> Number_of js a)
                             else Some 100)
                  in map fst (slice0 lmt
                       (sort_key snd (filter (\<lambda>(mem, sc). above sc \<and> below sc) ms)))))
          else [])"

definition zrem :: "mongo \<Rightarrow> string \<Rightarrow> string list \<Rightarrow> nat \<times> mongo" where
  "zrem m key members =
     (let fullKey = keyPrefix m @ key in
      case kvCollection m fullKey of
        None \<Rightarrow> (0, m)
      | Some doc \<Rightarrow>
          if kv_type doc = Some ''zset'' then
            (case kv_members doc of
               None \<Rightarrow> (0, m)
             | Some ms \<Rightarrow>
                 (let ms' = fold AList.delete members ms in
                  (if ms' = ms then 0 else 1,
                   m\<lparr>kvCollection := (kvCollection m)(fullKey \<mapsto> doc\<lparr>kv_members := Some ms'\<rparr>)\<rparr>)))
          else (0, m))"

subsection \<open>Streams\<close>

text \<open>
  The argument scan of \<open>xadd\<close>: \<open>i\<close> is the index of the head of the list in \<open>args\<close>, so
  \<open>args[i + 2]\<close> is the second element of the tail. The result is \<open>maxlen\<close> (\<open>None\<close> when
  it is \<open>undefined\<close> or \<open>NaN\<close>, both falsy) and \<open>fieldsStart\<close>.
\<close>

fun xadd_args :: "lib \<Rightarrow> string list \<Rightarrow> nat \<Rightarrow> int option \<times> nat" where
  "xadd_args js [] i = (None, 0)"
| "xadd_args js (a # rest) i =
     (if a = ''MAXLEN'' \<and> 1 < length rest \<and> rest ! 1 \<noteq> [] then (Number_of js (rest ! 1), i + 3)
      else if a = ''*'' then (None, i + 1)
      else xadd_args js rest (Suc i))"

text \<open>
  The loop \<open>fields[args[i]] = args[i + 1]\<close> on \<open>{}\<close>; a missing last value is \<open>undefined\<close>
  (\<open>None\<close>). The values are strings or \<open>undefined\<close>, so an assignment to \<open>__proto__\<close> is
  dropped by the setter and the prototype never changes.
\<close>

fun xadd_fields :: "string list \<Rightarrow> (string \<times> string option) list \<Rightarrow> (string \<times> string option) list" where
  "xadd_fields [] acc = acc"
| "xadd_fields [k] acc = (if k = ''__proto__'' then acc else AList.update k None acc)"
| "xadd_fields (k # v # rest) acc =
     xadd_fields rest (if k = ''__proto__'' then acc else AList.update k (Some v) acc)"

definition trim :: "string \<Rightarrow> int \<Rightarrow> sdoc list \<Rightarrow> sdoc list" where
  "trim fullStream maxlen docs =
     (let count = int (length (filter (\<lambda>d. stream d = fullStream) docs)) in
      if count > maxlen then
        (let toDelete = count - maxlen;
             oldDocs = limit toDelete (sort_ts_seq (filter (\<lambda>d. stream d = fullStream) docs))
         in filter (\<lambda>d. oid d \<notin> set (map oid oldDocs)) docs)
      else docs)"

definition xadd :: "lib \<Rightarrow> mongo \<Rightarrow> nat \<Rightarrow> string \<Rightarrow> string list \<Rightarrow> string \<times> mongo" where
  "xadd js m now strm args =
     (let fullStream = keyPrefix m @ strm;
          (maxlen, fieldsStart) = xadd_args js args 0;
          count = length (filter (\<lambda>d. stream d = fullStream \<and> timestamp d = now)
                            (streamsCollection m));
          msgId = show_nat now @ ''-'' @ show_nat count;
          doc = \<lparr>oid = nextOid m, stream = fullStream, doc_id = msgId, timestamp = now,
                 sequence = count, doc_fields = xadd_fields (drop fieldsStart args) [],
                 pending = PendingArray\<rparr>;
          docs = streamsCollection m @ [doc];
          docs' = (case maxlen of
                     None \<Rightarrow> docs
                   | Some n \<Rightarrow> if n = 0 then docs else trim fullStream n docs)
      in (msgId, m\<lparr>streamsCollection := docs', nextOid := Suc (nextOid m)\<rparr>))"

text \<open>
  The field \<open>pending.<group>\<close> as a query sees it, and the two updates on it:
  \<open>$set\<close> of \<open>pending.<group>.<consumer>\<close> to the present date, and \<open>$unset\<close> of
  \<open>pending.<group>\<close>.
\<close>

fun pending_group :: "pending_val \<Rightarrow> string \<Rightarrow> (string \<times> nat) list option" where
  "pending_group PendingArray grp = None"
| "pending_group (PendingObject ps) grp = map_of ps grp"

definition mark_pending :: "string \<Rightarrow> string \<Rightarrow> nat \<Rightarrow> sdoc \<Rightarrow> error + sdoc" where
  "mark_pending grp consumer now d =
     (case pending d of
        PendingArray \<Rightarrow> Inl PathNotViable
      | PendingObject ps \<Rightarrow>
          Inr (d\<lparr>pending := PendingObject
                 (AList.update grp
                    (AList.update consumer now (case map_of ps grp of None \<Rightarrow> [] | Some cs \<Rightarrow> cs))
                    ps)\<rparr>))"

definition unset_pending :: "string \<Rightarrow> sdoc \<Rightarrow> sdoc" where
  "unset_pending grp d =
     (case pending d of
        PendingArray \<Rightarrow> d
      | PendingObject ps \<Rightarrow> d\<lparr>pending := PendingObject (AList.delete grp ps)\<rparr>)"

text \<open>
  The marking loop of \<open>xreadgroup\<close> and \<open>xautoclaim\<close>: one \<open>updateOne\<close> by \<open>_id\<close> for each
  message read, in order. The first update that the database refuses ends the
  operation with its error; the updates before it stay.
\<close>

fun mark_all ::
  "string \<Rightarrow> string \<Rightarrow> nat \<Rightarrow> sdoc list \<Rightarrow> sdoc list \<Rightarrow> (error + unit) \<times> sdoc list" where
  "mark_all grp consumer now [] docs = (Inr (), docs)"
| "mark_all grp consumer now (msg # msgs) docs =
     (case find (\<lambda>d. oid d = oid msg) docs of
        None \<Rightarrow> mark_all grp consumer now msgs docs
      | Some d \<Rightarrow>
          (case mark_pending grp consumer now d of
             Inl e \<Rightarrow> (Inl e, docs)
           | Inr d' \<Rightarrow>
               mark_all grp consumer now msgs
                 (update_first (\<lambda>x. oid x = oid msg) (\<lambda>x. d') docs)))"

definition entries_of :: "sdoc list \<Rightarrow> (string \<times> string option list) list" where
  "entries_of msgs = map (\<lambda>d. (doc_id d, flat_fields (doc_fields d))) msgs"

text \<open>
  \<open>xreadgroup\<close>. The reply is \<open>None\<close> for \<open>null\<close>. Nothing else writes during the wait of
  the blocking branch, so its second query runs on the same collection. A \<open>COUNT\<close> that
  is not a number is refused by the database.
\<close>

definition xreadgroup ::
  "lib \<Rightarrow> mongo \<Rightarrow> nat \<Rightarrow> jarg list
   \<Rightarrow> (error + (string \<times> (string \<times> string option list) list) list option) \<times> mongo" where
  "xreadgroup js m now args =
     (let groupIdx = indexOf args (AStr ''GROUP'');
          blockIdx = indexOf args (AStr ''BLOCK'');
          countIdx = indexOf args (AStr ''COUNT'');
          streamsIdx = indexOf args (AStr ''STREAMS'');
          grp = arg_str (js_index args (groupIdx + 1));
          consumer = arg_str (js_index args (groupIdx + 2));
          blockMs = (if blockIdx \<ge> 0 then arg_num js (js_index args (blockIdx + 1)) else Some 0);
          count = (if countIdx \<ge> 0 then arg_num js (js_index args (countIdx + 1)) else Some 10);
          strm = keyPrefix m @ arg_str (js_index args (streamsIdx + 1));
          startId = js_index args (streamsIdx + 2);
          query = (\<lambda>d. stream d = strm \<and>
                     (if startId = Some (AStr ''>'') then pending_group (pending d) grp = None
                      else True))
      in case count of
           None \<Rightarrow> (Inl (StoreError ''limit''), m)
         | Some n \<Rightarrow>
             (let messages = limit n (sort_ts_seq (filter query (streamsCollection m))) in
              if messages = [] \<and> (case blockMs of None \<Rightarrow> False | Some b \<Rightarrow> b > 0) then
                (let retry = limit n (sort_ts_seq (filter query (streamsCollection m))) in
                 if retry = [] then (Inr None, m)
                 else (case mark_all grp consumer now retry (streamsCollection m) of
                         (Inl e, docs) \<Rightarrow> (Inl e, m\<lparr>streamsCollection := docs\<rparr>)
                       | (Inr u, docs) \<Rightarrow>
                           (Inr (Some [(strm, entries_of retry)]), m\<lparr>streamsCollection := docs\<rparr>)))
              else if messages = [] then (Inr None, m)
              else (case mark_all grp consumer now messages (streamsCollection m) of
                      (Inl e, docs) \<Rightarrow> (Inl e, m\<lparr>streamsCollection := docs\<rparr>)
                    | (Inr u, docs) \<Rightarrow>
                        (Inr (Some [(strm, entries_of messages)]),
                         m\<lparr>streamsCollection := docs\<rparr>))))"

text \<open>\<open>xack\<close>: one \<open>updateOne\<close> per id, each on the first document that matches.\<close>

fun xack_loop :: "string \<Rightarrow> string \<Rightarrow> string list \<Rightarrow> sdoc list \<Rightarrow> sdoc list" where
  "xack_loop fullStream grp [] docs = docs"
| "xack_loop fullStream grp (i # ids) docs =
     xack_loop fullStream grp ids
       (update_first (\<lambda>d. stream d = fullStream \<and> doc_id d = i) (unset_pending grp) docs)"

definition xack :: "mongo \<Rightarrow> string \<Rightarrow> string \<Rightarrow> string list \<Rightarrow> nat \<times> mongo" where
  "xack m strm grp ids =
     (let fullStream = keyPrefix m @ strm in
      (length ids, m\<lparr>streamsCollection := xack_loop fullStream grp ids (streamsCollection m)\<rparr>))"

definition xlen :: "mongo \<Rightarrow> string \<Rightarrow> nat" where
  "xlen m strm = length (filter (\<lambda>d. stream d = keyPrefix m @ strm) (streamsCollection m))"

text \<open>
  \<open>xclaim\<close>: one \<open>findOneAndUpdate\<close> per id, on the first document that matches and
  returning it as updated; an id that matches no document is skipped, and an update
  that the database refuses ends the operation with its error.
\<close>

fun xclaim_loop ::
  "string \<Rightarrow> string \<Rightarrow> string \<Rightarrow> nat \<Rightarrow> string list \<Rightarrow> sdoc list
   \<Rightarrow> (string \<times> string option list) list
   \<Rightarrow> (error + (string \<times> string option list) list) \<times> sdoc list" where
  "xclaim_loop fullStream grp consumer now [] docs messages = (Inr messages, docs)"
| "xclaim_loop fullStream grp consumer now (i # ids) docs messages =
     (case find (\<lambda>d. stream d = fullStream \<and> doc_id d = i) docs of
        None \<Rightarrow> xclaim_loop fullStream grp consumer now ids docs messages
      | Some d \<Rightarrow>
          (case mark_pending grp consumer now d of
             Inl e \<Rightarrow> (Inl e, docs)
           | Inr d' \<Rightarrow>
               xclaim_loop fullStream grp consumer now ids
                 (update_first (\<lambda>x. stream x = fullStream \<and> doc_id x = i) (\<lambda>x. d') docs)
                 (messages @ [(doc_id d', flat_fields (doc_fields d'))])))"

definition xclaim ::
  "mongo \<Rightarrow> nat \<Rightarrow> string \<Rightarrow> string \<Rightarrow> string \<Rightarrow> int \<Rightarrow> string list
   \<Rightarrow> (error + (string \<times> string option list) list) \<times> mongo" where
  "xclaim m now strm grp consumer minIdleTime ids =
     (let fullStream = keyPrefix m @ strm;
          (messages, docs) = xclaim_loop fullStream grp consumer now ids (streamsCollection m) []
      in (messages, m\<lparr>streamsCollection := docs\<rparr>))"

text \<open>
  \<open>xautoclaim\<close> selects with \<open>{$exists: true, $lt: cutoff}\<close> on \<open>pending.<group>\<close>. The
  database compares values of one type only: the value under \<open>pending.<group>\<close> is an
  object, the cutoff is a date, and no object is below a date.
\<close>

definition object_lt_date :: "(string \<times> nat) list \<Rightarrow> int \<Rightarrow> bool" where
  "object_lt_date cs cutoff = False"

definition xautoclaim ::
  "lib \<Rightarrow> mongo \<Rightarrow> nat \<Rightarrow> string \<Rightarrow> string
   \<Rightarrow> string \<Rightarrow> int \<Rightarrow> string \<Rightarrow> jarg list
   \<Rightarrow> (error + string \<times> (string \<times> string option list) list) \<times> mongo" where
  "xautoclaim js m now strm grp consumer minIdleTime start args =
     (let fullStream = keyPrefix m @ strm;
          countIdx = indexOf args (AStr ''COUNT'');
          count = (if countIdx \<ge> 0 then arg_num js (js_index args (countIdx + 1)) else Some 10);
          cutoff = int now - minIdleTime
      in case count of
           None \<Rightarrow> (Inl (StoreError ''limit''), m)
         | Some n \<Rightarrow>
             (let messages = limit n (filter (\<lambda>d. stream d = fullStream \<and>
                     (case pending_group (pending d) grp of
                        None \<Rightarrow> False
                      | Some cs \<Rightarrow> object_lt_date cs cutoff))
                   (streamsCollection m))
              in case mark_all grp consumer now messages (streamsCollection m) of
                   (Inl e, docs) \<Rightarrow> (Inl e, m\<lparr>streamsCollection := docs\<rparr>)
                 | (Inr u, docs) \<Rightarrow>
                     (Inr (''0-0'', entries_of messages), m\<lparr>streamsCollection := docs\<rparr>)))"

definition xrange ::
  "lib \<Rightarrow> mongo \<Rightarrow> string \<Rightarrow> string \<Rightarrow> string \<Rightarrow> jarg list
   \<Rightarrow> error + (string \<times> string option list) list" where
  "xrange js m strm start fin args =
     (let fullStream = keyPrefix m @ strm;
          countIdx = indexOf args (AStr ''COUNT'');
          lmt = (if countIdx \<ge> 0 then arg_num js (js_index args (countIdx + 1)) else Some 10)
      in case lmt of
           None \<Rightarrow> Inl (StoreError ''limit'')
         | Some n \<Rightarrow>
             Inr (entries_of (limit n (sort_ts_seq
               (filter (\<lambda>d. stream d = fullStream) (streamsCollection m))))))"

definition xinfo :: "mongo \<Rightarrow> string \<Rightarrow> string \<Rightarrow> jsval list" where
  "xinfo m command strm =
     (let fullStream = keyPrefix m @ strm in
      if command = ''STREAM'' then
        [JStr ''length'',
         JNum (real (length (filter (\<lambda>d. stream d = fullStream) (streamsCollection m)))),
         JStr ''groups'',
         JNum (real (length (filter (\<lambda>g. g_stream g = fullStream) (groupsCollection m))))]
      else [])"

section \<open>The hot store and the warm store as the broker sees them\<close>

text \<open>
  The broker components are written against \<open>RedisClient\<close>; at run time that is the
  native client or the adapter above. A store command is a function on the store's
  state that returns the reply or the error it throws, and the state it leaves. The
  warm store is reached through \<open>collection.insert\<close> alone in the code modelled here.
  A field value \<open>None\<close> in a log entry is a \<open>null\<close>.
\<close>

record 's hot =
  h_xadd :: "string \<Rightarrow> string list \<Rightarrow> 's \<Rightarrow> (error + string) \<times> 's"
  h_xack :: "string \<Rightarrow> string \<Rightarrow> string list \<Rightarrow> 's \<Rightarrow> (error + nat) \<times> 's"
  h_zadd :: "string \<Rightarrow> real \<Rightarrow> string \<Rightarrow> 's \<Rightarrow> (error + nat) \<times> 's"
  h_zrangebyscore :: "string \<Rightarrow> string \<Rightarrow> string \<Rightarrow> string list \<Rightarrow> 's \<Rightarrow> (error + string list) \<times> 's"
  h_zrem :: "string \<Rightarrow> string list \<Rightarrow> 's \<Rightarrow> (error + nat) \<times> 's"
  h_xlen :: "string \<Rightarrow> 's \<Rightarrow> (error + nat) \<times> 's"
  h_xrange :: "string \<Rightarrow> string \<Rightarrow> string \<Rightarrow> jarg list \<Rightarrow> 's
               \<Rightarrow> (error + (string \<times> string option list) list) \<times> 's"
  h_xinfo :: "string \<Rightarrow> string \<Rightarrow> 's \<Rightarrow> (error + jsval list) \<times> 's"

record 'w warm =
  w_insert :: "string \<Rightarrow> string \<Rightarrow> jsobj \<Rightarrow> 'w \<Rightarrow> (error + unit) \<times> 'w"

record ('s, 'w) world =
  hot :: 's
  warm :: 'w
  deliveryCounts :: "string \<rightharpoonup> nat"

definition hot_call ::
  "('s \<Rightarrow> (error + 'a) \<times> 's) \<Rightarrow> ('s, 'w) world \<Rightarrow> (error + 'a) \<times> ('s, 'w) world" where
  "hot_call f st = (case f (hot st) of (r, s') \<Rightarrow> (r, st\<lparr>hot := s'\<rparr>))"

definition warm_call ::
  "('w \<Rightarrow> (error + 'a) \<times> 'w) \<Rightarrow> ('s, 'w) world \<Rightarrow> (error + 'a) \<times> ('s, 'w) world" where
  "warm_call f st = (case f (warm st) of (r, w') \<Rightarrow> (r, st\<lparr>warm := w'\<rparr>))"

text \<open>Sequencing of awaited calls: an error ends the operation, the state stays as left.\<close>

definition andThen ::
  "('st \<Rightarrow> (error + 'a) \<times> 'st) \<Rightarrow> ('a \<Rightarrow> 'st \<Rightarrow> (error + 'b) \<times> 'st)
   \<Rightarrow> 'st \<Rightarrow> (error + 'b) \<times> 'st" where
  "andThen f g st = (case f st of (Inl e, st') \<Rightarrow> (Inl e, st') | (Inr a, st') \<Rightarrow> g a st')"

record ChronowDefaults =
  d_namespace :: string
  d_tenantId :: string
  d_keyPrefix :: string
  maxStreamLen :: nat
  maxPayloadBytes :: nat

record opts =
  o_namespace :: "string option"
  o_tenantId :: "string option"

record PublishOptions = opts +
  persistWarmCopy :: bool
  o_headers :: "jsval option"

definition ns_of :: "ChronowDefaults \<Rightarrow> 'a opts_scheme \<Rightarrow> string" where
  "ns_of dflt os = (case o_namespace os of None \<Rightarrow> d_namespace dflt | Some n \<Rightarrow> n)"

definition tenant_of :: "ChronowDefaults \<Rightarrow> 'a opts_scheme \<Rightarrow> string" where
  "tenant_of dflt os = (case o_tenantId os of None \<Rightarrow> d_tenantId dflt | Some t \<Rightarrow> t)"

section \<open>Warm adapter (src/warm/chronosAdapter.ts)\<close>

text \<open>\<open>opts.tenantId || 'default'\<close>: the empty string is falsy too.\<close>

definition warm_tenant :: "string option \<Rightarrow> string" where
  "warm_tenant t = (case t of None \<Rightarrow> ''default'' | Some x \<Rightarrow> if x = [] then ''default'' else x)"

definition saveMessage ::
  "'w warm \<Rightarrow> lib \<Rightarrow> env \<Rightarrow> string \<Rightarrow> string \<Rightarrow> jsval \<Rightarrow> jsval \<Rightarrow> string option
   \<Rightarrow> 'w \<Rightarrow> (error + unit) \<times> 'w" where
  "saveMessage wm js ev topic msgId payload headers tenant =
     (let tenantId = warm_tenant tenant;
          payloadStr = JSON_stringify js payload;
          doc = [(''topic'', JStr topic), (''msgId'', JStr msgId), (''tenantId'', JStr tenantId),
                 (''headers'', headers), (''payload'', payload),
                 (''firstSeenAt'', JStr (isoNow ev)),
                 (''size'', JNum (real (length payloadStr))),
                 (''_system'', JObj [(''createdAt'', JStr (isoNow ev))])]
      in w_insert wm tenantId ''messages'' doc)"

definition saveDeadLetter ::
  "'w warm \<Rightarrow> env \<Rightarrow> string \<Rightarrow> string \<Rightarrow> string \<Rightarrow> jsval \<Rightarrow> jsval \<Rightarrow> nat \<Rightarrow> string option
   \<Rightarrow> 'w \<Rightarrow> (error + unit) \<times> 'w" where
  "saveDeadLetter wm ev topic msgId reason payload headers deliveries tenant =
     (let tenantId = warm_tenant tenant;
          doc = [(''topic'', JStr topic), (''msgId'', JStr msgId), (''tenantId'', JStr tenantId),
                 (''reason'', JStr reason), (''headers'', headers), (''payload'', payload),
                 (''failedAt'', JStr (isoNow ev)), (''deliveries'', JNum (real deliveries)),
                 (''_system'', JObj [(''createdAt'', JStr (isoNow ev))])]
      in w_insert wm tenantId ''dead_letters'' doc)"

section \<open>Producer (Producer.publish, Producer.publishBatch)\<close>

definition publish_entry :: "lib \<Rightarrow> env \<Rightarrow> jsval \<Rightarrow> jsval \<Rightarrow> jsobj" where
  "publish_entry js ev payload headers =
     [(''payload'', JStr (JSON_stringify js payload)),
      (''headers'', JStr (JSON_stringify js headers)),
      (''hash'', JStr (hashValue js payload)),
      (''size'', JStr (show_nat (length (JSON_stringify js payload)))),
      (''publishedAt'', JStr (isoNow ev))]"

definition xadd_command :: "lib \<Rightarrow> nat \<Rightarrow> jsobj \<Rightarrow> string list" where
  "xadd_command js maxlen entry = [''MAXLEN'', ''~'', show_nat maxlen, ''*''] @ toFlatArray js entry"

definition publish ::
  "'s hot \<Rightarrow> 'w warm \<Rightarrow> lib \<Rightarrow> env \<Rightarrow> ChronowDefaults \<Rightarrow> string \<Rightarrow> jsval \<Rightarrow> PublishOptions
   \<Rightarrow> ('s, 'w) world \<Rightarrow> (error + string) \<times> ('s, 'w) world" where
  "publish h wm js ev dflt topic payload os st =
     (let ns = ns_of dflt os;
          tenant = tenant_of dflt os;
          headers = (case o_headers os of None \<Rightarrow> JObj [] | Some hs \<Rightarrow> hs);
          topicKey = buildTopicKey topic tenant ns (d_keyPrefix dflt);
          payloadStr = JSON_stringify js payload;
          payloadBytes = length payloadStr
      in if payloadBytes > maxPayloadBytes dflt
         then (Inl (PayloadTooLarge payloadBytes (maxPayloadBytes dflt)), st)
         else andThen
           (hot_call (h_xadd h topicKey
              (xadd_command js (maxStreamLen dflt) (publish_entry js ev payload headers))))
           (\<lambda>msgId.
              if persistWarmCopy os
              then andThen
                (warm_call (saveMessage wm js ev topic msgId payload headers (Some tenant)))
                (\<lambda>_ st'. (Inr msgId, st'))
              else (\<lambda>st'. (Inr msgId, st')))
           st)"

text \<open>
  \<open>publishBatch\<close>. The loop queues one \<open>xadd\<close> per message on the pipeline and, when a
  warm copy is asked for, calls \<open>saveMessage\<close> at once (its promise is awaited after the
  pipeline has run, so a failure of it surfaces there). An oversize message throws out
  of the loop: the pipeline is dropped unexecuted. The state threaded through the loop
  is the queue, the results of the warm saves, and the world.
\<close>

record batch_msg =
  b_payload :: jsval
  b_headers :: "jsval option"

fun batch_loop ::
  "'w warm \<Rightarrow> lib \<Rightarrow> env \<Rightarrow> ChronowDefaults \<Rightarrow> string \<Rightarrow> string \<Rightarrow> bool \<Rightarrow> batch_msg list
   \<Rightarrow> string list list \<Rightarrow> (error + unit) list \<Rightarrow> ('s, 'w) world
   \<Rightarrow> (error + string list list \<times> (error + unit) list) \<times> ('s, 'w) world" where
  "batch_loop wm js ev dflt topic tenant pw [] pipeline warmSaves st =
     (Inr (pipeline, warmSaves), st)"
| "batch_loop wm js ev dflt topic tenant pw (msg # msgs) pipeline warmSaves st =
     (let headers = (case b_headers msg of None \<Rightarrow> JObj [] | Some hs \<Rightarrow> hs);
          payloadStr = JSON_stringify js (b_payload msg);
          payloadBytes = length payloadStr
      in if payloadBytes > maxPayloadBytes dflt
         then (Inl (PayloadTooLarge payloadBytes (maxPayloadBytes dflt)), st)
         else
           (let cmd = xadd_command js (maxStreamLen dflt)
                        (publish_entry js ev (b_payload msg) headers)
            in if pw
               then (case warm_call (saveMessage wm js ev topic [] (b_payload msg) headers
                                       (Some tenant)) st of
                       (r, st') \<Rightarrow> batch_loop wm js ev dflt topic tenant pw msgs
                                     (pipeline @ [cmd]) (warmSaves @ [r]) st')
               else batch_loop wm js ev dflt topic tenant pw msgs (pipeline @ [cmd]) warmSaves st))"

text \<open>\<open>pipeline.exec()\<close>: every queued command runs, each result is kept with its error.\<close>

fun pipeline_exec ::
  "'s hot \<Rightarrow> string \<Rightarrow> string list list \<Rightarrow> ('s, 'w) world
   \<Rightarrow> (error + string) list \<times> ('s, 'w) world" where
  "pipeline_exec h topicKey [] st = ([], st)"
| "pipeline_exec h topicKey (cmd # cmds) st =
     (case hot_call (h_xadd h topicKey cmd) st of
        (r, st') \<Rightarrow> (case pipeline_exec h topicKey cmds st' of (rs, st'') \<Rightarrow> (r # rs, st'')))"

fun first_error :: "(error + 'a) list \<Rightarrow> error + 'a list" where
  "first_error [] = Inr []"
| "first_error (Inl e # rs) = Inl e"
| "first_error (Inr a # rs) = (case first_error rs of Inl e \<Rightarrow> Inl e | Inr as \<Rightarrow> Inr (a # as))"

definition publishBatch ::
  "'s hot \<Rightarrow> 'w warm \<Rightarrow> lib \<Rightarrow> env \<Rightarrow> ChronowDefaults \<Rightarrow> string \<Rightarrow> batch_msg list \<Rightarrow> PublishOptions
   \<Rightarrow> ('s, 'w) world \<Rightarrow> (error + string list) \<times> ('s, 'w) world" where
  "publishBatch h wm js ev dflt topic messages os st =
     (let ns = ns_of dflt os;
          tenant = tenant_of dflt os;
          topicKey = buildTopicKey topic tenant ns (d_keyPrefix dflt)
      in case batch_loop wm js ev dflt topic tenant (persistWarmCopy os) messages [] [] st of
           (Inl e, st') \<Rightarrow> (Inl e, st')
         | (Inr (pipeline, warmSaves), st') \<Rightarrow>
             (case pipeline_exec h topicKey pipeline st' of
                (results, st'') \<Rightarrow>
                  (case first_error results of
                     Inl e \<Rightarrow> (Inl e, st'')
                   | Inr msgIds \<Rightarrow>
                       if persistWarmCopy os
                       then (case first_error warmSaves of
                               Inl e \<Rightarrow> (Inl e, st'')
                             | Inr _ \<Rightarrow> (Inr msgIds, st''))
                       else (Inr msgIds, st''))))"

section \<open>Retry scheduler (RetryManager)\<close>

definition retry_entry :: "string \<Rightarrow> jsval \<Rightarrow> jsval \<Rightarrow> int \<Rightarrow> real \<Rightarrow> jsval" where
  "retry_entry msgId payload headers attempt nextRetryMs =
     JObj [(''msgId'', JStr msgId), (''payload'', payload), (''headers'', headers),
           (''attempt'', JNum (real_of_int attempt)), (''nextRetryMs'', JNum nextRetryMs)]"

definition scheduleRetry ::
  "'s hot \<Rightarrow> lib \<Rightarrow> env \<Rightarrow> ChronowDefaults \<Rightarrow> string \<Rightarrow> string \<Rightarrow> string \<Rightarrow> jsval \<Rightarrow> jsval
   \<Rightarrow> int \<Rightarrow> real list \<Rightarrow> 'a opts_scheme \<Rightarrow> 's \<Rightarrow> (error + unit) \<times> 's" where
  "scheduleRetry h js ev dflt topic subscription msgId payload headers attempt backoffMs os =
     (let ns = ns_of dflt os;
          tenant = tenant_of dflt os;
          retryKey = buildRetryKey topic subscription tenant ns (d_keyPrefix dflt);
          delay = calculateBackoff (random ev) attempt backoffMs True;
          nextRetryMs = real (nowMs ev) + delay;
          entry = retry_entry msgId payload headers attempt nextRetryMs
      in andThen (h_zadd h retryKey nextRetryMs (JSON_stringify js entry))
           (\<lambda>_ s. (Inr (), s)))"

fun parse_all :: "lib \<Rightarrow> string list \<Rightarrow> error + jsval list" where
  "parse_all js [] = Inr []"
| "parse_all js (e # es) =
     (case JSON_parse js e of
        None \<Rightarrow> Inl (StoreError ''SyntaxError'')
      | Some v \<Rightarrow> (case parse_all js es of Inl x \<Rightarrow> Inl x | Inr vs \<Rightarrow> Inr (v # vs)))"

definition getReadyRetries ::
  "'s hot \<Rightarrow> lib \<Rightarrow> env \<Rightarrow> ChronowDefaults \<Rightarrow> string \<Rightarrow> string \<Rightarrow> nat \<Rightarrow> 'a opts_scheme
   \<Rightarrow> 's \<Rightarrow> (error + jsval list) \<times> 's" where
  "getReadyRetries h js ev dflt topic subscription lmt os =
     (let ns = ns_of dflt os;
          tenant = tenant_of dflt os;
          retryKey = buildRetryKey topic subscription tenant ns (d_keyPrefix dflt)
      in andThen
           (h_zrangebyscore h retryKey ''-inf'' (show_nat (nowMs ev)) [''LIMIT'', ''0'', show_nat lmt])
           (\<lambda>entries s. (parse_all js entries, s)))"

definition removeRetry ::
  "'s hot \<Rightarrow> lib \<Rightarrow> ChronowDefaults \<Rightarrow> string \<Rightarrow> string \<Rightarrow> jsval \<Rightarrow> 'a opts_scheme
   \<Rightarrow> 's \<Rightarrow> (error + unit) \<times> 's" where
  "removeRetry h js dflt topic subscription entry os =
     (let ns = ns_of dflt os;
          tenant = tenant_of dflt os;
          retryKey = buildRetryKey topic subscription tenant ns (d_keyPrefix dflt)
      in andThen (h_zrem h retryKey [JSON_stringify js entry]) (\<lambda>_ s. (Inr (), s)))"

section \<open>Dead-letter sink (src/bus/dlq.ts)\<close>

definition sendToDeadLetter ::
  "'s hot \<Rightarrow> 'w warm \<Rightarrow> lib \<Rightarrow> env \<Rightarrow> ChronowDefaults \<Rightarrow> string \<Rightarrow> string \<Rightarrow> jsval \<Rightarrow> jsval
   \<Rightarrow> string \<Rightarrow> nat \<Rightarrow> 'a opts_scheme \<Rightarrow> ('s, 'w) world \<Rightarrow> (error + unit) \<times> ('s, 'w) world" where
  "sendToDeadLetter h wm js ev dflt topic msgId payload headers reason deliveries os =
     (let ns = ns_of dflt os;
          tenant = tenant_of dflt os;
          dlqKey = buildDlqKey topic tenant ns (d_keyPrefix dflt);
          entry = [(''originalMsgId'', JStr msgId),
                   (''payload'', JStr (JSON_stringify js payload)),
                   (''headers'', JStr (JSON_stringify js headers)),
                   (''reason'', JStr reason),
                   (''deliveries'', JStr (show_nat deliveries)),
                   (''failedAt'', JStr (isoNow ev))]
      in andThen (hot_call (h_xadd h dlqKey (xadd_command js (maxStreamLen dflt) entry)))
           (\<lambda>_. warm_call (saveDeadLetter wm ev topic msgId reason payload headers deliveries
                              (Some tenant))))"

definition getDlqLength ::
  "'s hot \<Rightarrow> ChronowDefaults \<Rightarrow> string \<Rightarrow> 'a opts_scheme \<Rightarrow> ('s, 'w) world
   \<Rightarrow> nat \<times> ('s, 'w) world" where
  "getDlqLength h dflt topic os st =
     (let ns = ns_of dflt os;
          tenant = tenant_of dflt os;
          dlqKey = buildDlqKey topic tenant ns (d_keyPrefix dflt)
      in case hot_call (h_xlen h dlqKey) st of
           (Inr n, st') \<Rightarrow> (n, st')
         | (Inl e, st') \<Rightarrow> (0, st'))"

text \<open>
  The object \<open>peekDlq\<close> builds for one entry: \<open>{ id }\<close>, then the fields assigned two at a
  time; \<open>payload\<close> and \<open>headers\<close> are parsed when they parse. A field list is
  \<open>key, value, ...\<close>; a \<open>null\<close> value parses to \<open>null\<close>, a missing last value stays
  \<open>undefined\<close>.
\<close>

fun peek_fields :: "lib \<Rightarrow> string option list \<Rightarrow> jobject \<Rightarrow> jobject" where
  "peek_fields js [] obj = obj"
| "peek_fields js [k] obj = js_assign (case k of None \<Rightarrow> ''null'' | Some s \<Rightarrow> s) JUndefined obj"
| "peek_fields js (k # v # rest) obj =
     (let key = (case k of None \<Rightarrow> ''null'' | Some s \<Rightarrow> s);
          raw = (case v of None \<Rightarrow> JNull | Some s \<Rightarrow> JStr s);
          val = (if key = ''payload'' \<or> key = ''headers''
                 then (case v of
                         None \<Rightarrow> JNull
                       | Some s \<Rightarrow> (case JSON_parse js s of None \<Rightarrow> raw | Some j \<Rightarrow> j))
                 else raw)
      in peek_fields js rest (js_assign key val obj))"

definition peekDlq ::
  "'s hot \<Rightarrow> lib \<Rightarrow> ChronowDefaults \<Rightarrow> string \<Rightarrow> int \<Rightarrow> 'a opts_scheme \<Rightarrow> ('s, 'w) world
   \<Rightarrow> jobject list \<times> ('s, 'w) world" where
  "peekDlq h js dflt topic lmt os st =
     (let ns = ns_of dflt os;
          tenant = tenant_of dflt os;
          dlqKey = buildDlqKey topic tenant ns (d_keyPrefix dflt)
      in case hot_call (h_xrange h dlqKey ''-'' ''+'' [AStr ''COUNT'', ANum lmt]) st of
           (Inr entries, st') \<Rightarrow>
             (map (\<lambda>(i, flds). peek_fields js flds (new_object [(''id'', JStr i)])) entries, st')
         | (Inl e, st') \<Rightarrow> ([], st'))"

section \<open>Topic statistics (TopicManager.getStats)\<close>

record stats =
  s_topic :: string
  s_length :: jsval
  s_groups :: jsval

definition js_at :: "jsval list \<Rightarrow> int \<Rightarrow> jsval" where
  "js_at xs i = (case js_index xs i of None \<Rightarrow> JUndefined | Some v \<Rightarrow> v)"

definition getStats ::
  "'s hot \<Rightarrow> ChronowDefaults \<Rightarrow> string \<Rightarrow> 'a opts_scheme \<Rightarrow> ('s, 'w) world
   \<Rightarrow> stats \<times> ('s, 'w) world" where
  "getStats h dflt topic os st =
     (let ns = ns_of dflt os;
          tenant = tenant_of dflt os;
          topicKey = buildTopicKey topic tenant ns (d_keyPrefix dflt)
      in case hot_call (h_xinfo h ''STREAM'' topicKey) st of
           (Inr info, st') \<Rightarrow>
             (\<lparr>s_topic = topic, s_length = js_at info 1, s_groups = js_at info 5\<rparr>, st')
         | (Inl e, st') \<Rightarrow>
             (\<lparr>s_topic = topic, s_length = JNum 0, s_groups = JNum 0\<rparr>, st'))"

section \<open>Consumer (Consumer.consume, wrapMessage, processRetries)\<close>

record SubscriptionState =
  visibilityTimeoutMs :: "int option"
  maxDeliveries :: "int option"
  retryBackoffMs :: "real list option"
  deadLetterEnabled :: "bool option"
  shardCount :: "int option"
  blockMs :: "int option"
  cfg_count :: "int option"

text \<open>
  The message handle: the public fields of \<open>ChronowMessage\<close> and the variables its three
  operations close over.
\<close>

record ChronowMessage =
  m_id :: string
  m_topic :: string
  m_subscription :: string
  m_headers :: jsval
  m_payload :: jsval
  redeliveryCount :: nat
  m_topicKey :: string
  m_groupName :: string
  m_config :: SubscriptionState
  m_namespace :: string
  m_tenantId :: string

definition handle_opts :: "ChronowMessage \<Rightarrow> opts" where
  "handle_opts msg = \<lparr>o_namespace = Some (m_namespace msg), o_tenantId = Some (m_tenantId msg)\<rparr>"

definition delete_count :: "string \<Rightarrow> ('s, 'w) world \<Rightarrow> ('s, 'w) world" where
  "delete_count msgId st = st\<lparr>deliveryCounts := (deliveryCounts st)(msgId := None)\<rparr>"

definition ack ::
  "'s hot \<Rightarrow> ChronowMessage \<Rightarrow> ('s, 'w) world \<Rightarrow> (error + unit) \<times> ('s, 'w) world" where
  "ack h msg =
     andThen (hot_call (h_xack h (m_topicKey msg) (m_groupName msg) [m_id msg]))
       (\<lambda>_ st. (Inr (), delete_count (m_id msg) st))"

text \<open>\<open>deliveryCounts.get(msgId) || 1\<close>: a missing counter and a counter \<open>0\<close> both read \<open>1\<close>.\<close>

definition deliveries_of :: "('s, 'w) world \<Rightarrow> string \<Rightarrow> nat" where
  "deliveries_of st msgId =
     (case deliveryCounts st msgId of None \<Rightarrow> 1 | Some n \<Rightarrow> if n = 0 then 1 else n)"

definition nack ::
  "'s hot \<Rightarrow> 'w warm \<Rightarrow> lib \<Rightarrow> env \<Rightarrow> ChronowDefaults \<Rightarrow> ChronowMessage \<Rightarrow> bool
   \<Rightarrow> ('s, 'w) world \<Rightarrow> (error + unit) \<times> ('s, 'w) world" where
  "nack h wm js ev dflt msg requeue st =
     (let deliveries = deliveries_of st (m_id msg) in
      if int deliveries \<ge> (case maxDeliveries (m_config msg) of None \<Rightarrow> 5 | Some k \<Rightarrow> k) then
        andThen
          (sendToDeadLetter h wm js ev dflt (m_topic msg) (m_id msg) (m_payload msg)
             (m_headers msg) ''Max deliveries exceeded'' deliveries (handle_opts msg))
          (\<lambda>_. andThen (hot_call (h_xack h (m_topicKey msg) (m_groupName msg) [m_id msg]))
                  (\<lambda>_ st'. (Inr (), delete_count (m_id msg) st')))
          st
      else if requeue then
        andThen
          (hot_call (scheduleRetry h js ev dflt (m_topic msg) (m_subscription msg) (m_id msg)
             (m_payload msg) (m_headers msg) (int deliveries)
             (case retryBackoffMs (m_config msg) of None \<Rightarrow> [1000, 5000, 30000] | Some b \<Rightarrow> b)
             (handle_opts msg)))
          (\<lambda>_. andThen (hot_call (h_xack h (m_topicKey msg) (m_groupName msg) [m_id msg]))
                  (\<lambda>_ st'. (Inr (), st')))
          st
      else (Inr (), st))"

definition deadLetter ::
  "'s hot \<Rightarrow> 'w warm \<Rightarrow> lib \<Rightarrow> env \<Rightarrow> ChronowDefaults \<Rightarrow> ChronowMessage \<Rightarrow> string option
   \<Rightarrow> ('s, 'w) world \<Rightarrow> (error + unit) \<times> ('s, 'w) world" where
  "deadLetter h wm js ev dflt msg reason st =
     (let deliveries = deliveries_of st (m_id msg) in
      andThen
        (sendToDeadLetter h wm js ev dflt (m_topic msg) (m_id msg) (m_payload msg)
           (m_headers msg) (case reason of None \<Rightarrow> ''Manual dead-letter'' | Some r \<Rightarrow> r)
           deliveries (handle_opts msg))
        (\<lambda>_. andThen (hot_call (h_xack h (m_topicKey msg) (m_groupName msg) [m_id msg]))
                (\<lambda>_ st'. (Inr (), delete_count (m_id msg) st')))
        st)"

text \<open>
  The body of the dispatch loop for one entry that parsed: the delivery counter is read
  (\<open>|| 0\<close>), stored incremented, and the handle is built and yielded.
\<close>

definition deliver ::
  "string \<Rightarrow> string \<Rightarrow> string \<Rightarrow> string \<Rightarrow> SubscriptionState \<Rightarrow> string \<Rightarrow> string \<Rightarrow> string
   \<Rightarrow> jsval \<Rightarrow> jsval \<Rightarrow> ('s, 'w) world \<Rightarrow> ChronowMessage \<times> ('s, 'w) world" where
  "deliver topic subscription topicKey groupName cfg ns tenant msgId payload headers st =
     (let currentCount = (case deliveryCounts st msgId of None \<Rightarrow> 0 | Some n \<Rightarrow> n)
      in (\<lparr>m_id = msgId, m_topic = topic, m_subscription = subscription, m_headers = headers,
           m_payload = payload, redeliveryCount = currentCount, m_topicKey = topicKey,
           m_groupName = groupName, m_config = cfg, m_namespace = ns, m_tenantId = tenant\<rparr>,
          st\<lparr>deliveryCounts := (deliveryCounts st)(msgId \<mapsto> currentCount + 1)\<rparr>))"

fun truthy :: "jsval \<Rightarrow> bool" where
  "truthy JUndefined = False"
| "truthy JNull = False"
| "truthy (JBool b) = b"
| "truthy (JNum x) = (x \<noteq> 0)"
| "truthy (JStr s) = (s \<noteq> [])"
| "truthy (JArr xs) = True"
| "truthy (JObj kvs) = True"

text \<open>
  The reads \<open>data.payload\<close> and \<open>data.headers\<close>: the own entry, else the entry of an
  object that a \<open>__proto__\<close> field installed as prototype, else \<open>undefined\<close> (no built-in
  prototype has a property of either name).
\<close>

definition data_prop :: "jobject \<Rightarrow> string \<Rightarrow> jsval" where
  "data_prop obj k =
     (case map_of (props obj) k of
        Some v \<Rightarrow> v
      | None \<Rightarrow>
          (case proto obj of
             ValuePrototype v \<Rightarrow>
               (case v of
                  JObj kvs \<Rightarrow> (case map_of kvs k of Some x \<Rightarrow> x | None \<Rightarrow> JUndefined)
                | _ \<Rightarrow> JUndefined)
           | _ \<Rightarrow> JUndefined))"

text \<open>
  Decoding of one entry read from the log. \<open>fromFlatArray\<close> has already parsed each
  field; a \<open>payload\<close> or \<open>headers\<close> that is still a string is parsed again, and a failure
  there is the \<open>catch\<close> branch: the entry is acked and skipped.
\<close>

definition decode_entry :: "lib \<Rightarrow> string list \<Rightarrow> (jsval \<times> jsval) option" where
  "decode_entry js flds =
     (let data = fromFlatArray js flds;
          payload = (case data_prop data ''payload'' of
                       JStr s \<Rightarrow> JSON_parse js s
                     | v \<Rightarrow> Some v)
      in case payload of
           None \<Rightarrow> None
         | Some p \<Rightarrow>
             (case data_prop data ''headers'' of
                JStr s \<Rightarrow> (case JSON_parse js s of None \<Rightarrow> None | Some hs \<Rightarrow> Some (p, hs))
              | v \<Rightarrow> Some (p, if truthy v then v else JObj [])))"

definition dispatch ::
  "'s hot \<Rightarrow> lib \<Rightarrow> string \<Rightarrow> string \<Rightarrow> string \<Rightarrow> string \<Rightarrow> SubscriptionState \<Rightarrow> string \<Rightarrow> string
   \<Rightarrow> string \<times> string list \<Rightarrow> ('s, 'w) world
   \<Rightarrow> (error + ChronowMessage option) \<times> ('s, 'w) world" where
  "dispatch h js topic subscription topicKey groupName cfg ns tenant entry st =
     (case decode_entry js (snd entry) of
        None \<Rightarrow>
          andThen (hot_call (h_xack h topicKey groupName [fst entry]))
            (\<lambda>_ st'. (Inr None, st')) st
      | Some (payload, headers) \<Rightarrow>
          (case deliver topic subscription topicKey groupName cfg ns tenant (fst entry)
                  payload headers st of
             (msg, st') \<Rightarrow> (Inr (Some msg), st')))"

text \<open>
  \<open>processRetries\<close>. A ready retry is the object parsed from the retry set; its \<open>attempt\<close>
  is the number \<open>scheduleRetry\<close> wrote (an integer), anything else has no \<open>toString\<close>
  the model follows. The entry appended to the topic log carries \<open>retryOf\<close> and
  \<open>attempt\<close>; its id is the one the log assigns.
\<close>

definition js_prop :: "jsval \<Rightarrow> string \<Rightarrow> jsval" where
  "js_prop v k = (case v of JObj kvs \<Rightarrow> (case map_of kvs k of None \<Rightarrow> JUndefined | Some x \<Rightarrow> x)
               | _ \<Rightarrow> JUndefined)"

definition retry_log_entry :: "lib \<Rightarrow> jsval \<Rightarrow> error + jsobj" where
  "retry_log_entry js retry =
     (case js_prop retry ''attempt'' of
        JNum a \<Rightarrow>
          Inr [(''payload'', JStr (JSON_stringify js (js_prop retry ''payload''))),
               (''headers'', JStr (JSON_stringify js (js_prop retry ''headers''))),
               (''retryOf'', js_prop retry ''msgId''),
               (''attempt'', JStr (show_int \<lfloor>a\<rfloor>))]
      | _ \<Rightarrow> Inl (StoreError ''TypeError''))"

fun requeue_all ::
  "'s hot \<Rightarrow> lib \<Rightarrow> ChronowDefaults \<Rightarrow> string \<Rightarrow> string \<Rightarrow> string \<Rightarrow> opts \<Rightarrow> jsval list
   \<Rightarrow> 's \<Rightarrow> (error + unit) \<times> 's" where
  "requeue_all h js dflt topic subscription topicKey os [] s = (Inr (), s)"
| "requeue_all h js dflt topic subscription topicKey os (retry # retries) s =
     (case retry_log_entry js retry of
        Inl e \<Rightarrow> (Inl e, s)
      | Inr entry \<Rightarrow>
          andThen (h_xadd h topicKey (xadd_command js 100000 entry))
            (\<lambda>_. andThen (removeRetry h js dflt topic subscription retry os)
                    (\<lambda>_. requeue_all h js dflt topic subscription topicKey os retries))
            s)"

definition processRetries ::
  "'s hot \<Rightarrow> lib \<Rightarrow> env \<Rightarrow> ChronowDefaults \<Rightarrow> string \<Rightarrow> string \<Rightarrow> string \<Rightarrow> string \<Rightarrow> string
   \<Rightarrow> 's \<Rightarrow> (error + unit) \<times> 's" where
  "processRetries h js ev dflt topic subscription topicKey ns tenant =
     (let os = \<lparr>o_namespace = Some ns, o_tenantId = Some tenant\<rparr> in
      andThen (getReadyRetries h js ev dflt topic subscription 10 os)
        (requeue_all h js dflt topic subscription topicKey os))"

section \<open>The adapter as the broker's hot store\<close>

text \<open>
  In MongoDB-only mode \<open>Chronow.init\<close> hands the adapter to every component. The adapter
  reads the clock itself; \<open>mongoHot js now\<close> is the adapter at the clock reading \<open>now\<close>.
\<close>

definition mongoHot :: "lib \<Rightarrow> nat \<Rightarrow> mongo hot" where
  "mongoHot js now =
     \<lparr>h_xadd = (\<lambda>k args m. case xadd js m now k args of (i, m') \<Rightarrow> (Inr i, m')),
      h_xack = (\<lambda>k g ids m. case xack m k g ids of (n, m') \<Rightarrow> (Inr n, m')),
      h_zadd = (\<lambda>k sc mem m. zadd m k sc mem),
      h_zrangebyscore = (\<lambda>k mn mx args m. (Inr (zrangebyscore js m k mn mx args), m)),
      h_zrem = (\<lambda>k mems m. case zrem m k mems of (n, m') \<Rightarrow> (Inr n, m')),
      h_xlen = (\<lambda>k m. (Inr (xlen m k), m)),
      h_xrange = (\<lambda>k a b args m. (xrange js m k a b args, m)),
      h_xinfo = (\<lambda>c k m. (Inr (xinfo m c k), m))\<rparr>"

section \<open>Stores, library and inputs for concrete runs\<close>

text \<open>
  \<open>decimal\<close> is \<open>Number\<close> on a decimal numeral (what \<open>toString()\<close> of a non-negative
  integer gives, and the empty string, which reads \<open>0\<close>); other strings are not numerals
  of this reader. \<open>sample_parse\<close> and \<open>sample_stringify\<close> are \<open>JSON.parse\<close> and
  \<open>JSON.stringify\<close> cut down to a few values.
\<close>

definition decimal :: "string \<Rightarrow> int option" where
  "decimal s =
     (if list_all (\<lambda>c. 48 \<le> (of_char c :: nat) \<and> (of_char c :: nat) \<le> 57) s
      then Some (int (foldl (\<lambda>a c. 10 * a + (of_char c - 48)) 0 s)) else None)"

definition sample_parse :: "string \<Rightarrow> jsval option" where
  "sample_parse s =
     (if s = ''123'' then Some (JNum 123) else if s = ''true'' then Some (JBool True) else None)"

definition sample_stringify :: "jsval \<Rightarrow> string" where
  "sample_stringify v =
     (case v of JNull \<Rightarrow> ''null'' | JBool b \<Rightarrow> (if b then ''true'' else ''false'') | _ \<Rightarrow> ''{}'')"

definition sample_lib :: lib where
  "sample_lib = \<lparr>JSON_stringify = sample_stringify, JSON_parse = sample_parse,
     sha256_hex = (\<lambda>s. ''00''), Number_of = decimal\<rparr>"

definition sample_env :: env where
  "sample_env = \<lparr>nowMs = 7, random = 0, isoNow = ''1970-01-01T00:00:00.007Z''\<rparr>"

text \<open>
  The adapter before any command, and the arguments \<open>Consumer.consume\<close> passes to
  \<open>xreadgroup\<close> with the default \<open>blockMs\<close> and \<open>count\<close>.
\<close>

definition empty_mongo :: "string \<Rightarrow> mongo" where
  "empty_mongo pfx = \<lparr>keyPrefix = pfx, kvCollection = Map.empty, streamsCollection = [],
     groupsCollection = [], nextOid = 0\<rparr>"

definition read_args :: "string \<Rightarrow> string \<Rightarrow> string \<Rightarrow> jarg list" where
  "read_args grp consumer topicKey =
     [AStr ''GROUP'', AStr grp, AStr consumer, AStr ''BLOCK'', ANum 10000,
      AStr ''COUNT'', ANum 10, AStr ''STREAMS'', AStr topicKey, AStr ''>'']"

text \<open>The stub collection of \<open>ChronosWarm.initChronos\<close>: \<open>insert\<close> does nothing.\<close>

definition stub_warm :: "unit warm" where
  "stub_warm = \<lparr>w_insert = (\<lambda>tenant collection doc w. (Inr (), w))\<rparr>"

text \<open>A hot store that is down: every command throws and leaves the state as it was.\<close>

definition failing_hot :: "'s hot" where
  "failing_hot =
     \<lparr>h_xadd = (\<lambda>k args s. (Inl (StoreError ''down''), s)),
      h_xack = (\<lambda>k g ids s. (Inl (StoreError ''down''), s)),
      h_zadd = (\<lambda>k sc mem s. (Inl (StoreError ''down''), s)),
      h_zrangebyscore = (\<lambda>k mn mx args s. (Inl (StoreError ''down''), s)),
      h_zrem = (\<lambda>k mems s. (Inl (StoreError ''down''), s)),
      h_xlen = (\<lambda>k s. (Inl (StoreError ''down''), s)),
      h_xrange = (\<lambda>k a b args s. (Inl (StoreError ''down''), s)),
      h_xinfo = (\<lambda>c k s. (Inl (StoreError ''down''), s))\<rparr>"

text \<open>
  A hot store that records the commands it receives, in order, and lets each succeed
  with an empty reply. The handle operations of the consumer do not branch on a reply
  of the store, so the record is the list of commands they issue to any store that
  raises no error.
\<close>

datatype command =
    XADD string "string list"
  | XACK string string "string list"
  | ZADD string real string
  | ZRANGEBYSCORE string string string "string list"
  | ZREM string "string list"
  | XLEN string
  | XRANGE string string string "jarg list"
  | XINFO string string

definition recording_hot :: "command list hot" where
  "recording_hot =
     \<lparr>h_xadd = (\<lambda>k args s. (Inr ''0-0'', s @ [XADD k args])),
      h_xack = (\<lambda>k g ids s. (Inr (length ids), s @ [XACK k g ids])),
      h_zadd = (\<lambda>k sc mem s. (Inr 1, s @ [ZADD k sc mem])),
      h_zrangebyscore = (\<lambda>k mn mx args s. (Inr [], s @ [ZRANGEBYSCORE k mn mx args])),
      h_zrem = (\<lambda>k mems s. (Inr 1, s @ [ZREM k mems])),
      h_xlen = (\<lambda>k s. (Inr 0, s @ [XLEN k])),
      h_xrange = (\<lambda>k a b args s. (Inr [], s @ [XRANGE k a b args])),
      h_xinfo = (\<lambda>c k s. (Inr [], s @ [XINFO c k]))\<rparr>"

text \<open>
  The defaults \<open>Chronow.init\<close> builds from an empty configuration, a call without options,
  and the world before any delivery.
\<close>

definition default_config :: ChronowDefaults where
  "default_config = \<lparr>d_namespace = ''default'', d_tenantId = ''default'', d_keyPrefix = ''cw:'',
     maxStreamLen = 100000, maxPayloadBytes = 262144\<rparr>"

definition no_opts :: opts where
  "no_opts = \<lparr>o_namespace = None, o_tenantId = None\<rparr>"

definition start_world :: "'s \<Rightarrow> ('s, unit) world" where
  "start_world s = \<lparr>hot = s, warm = (), deliveryCounts = Map.empty\<rparr>"

text \<open>
  Two subscription states: the one of the retry scenarios (three deliveries, backoff
  100, 200, 400 ms) and one that leaves every option to its default.
\<close>

definition scenario_config :: SubscriptionState where
  "scenario_config = \<lparr>visibilityTimeoutMs = Some 1000, maxDeliveries = Some 3,
     retryBackoffMs = Some [100, 200, 400], deadLetterEnabled = Some True, shardCount = Some 1,
     blockMs = Some 10000, cfg_count = Some 10\<rparr>"

definition default_subscription :: SubscriptionState where
  "default_subscription = \<lparr>visibilityTimeoutMs = None, maxDeliveries = None,
     retryBackoffMs = None, deadLetterEnabled = None, shardCount = None,
     blockMs = None, cfg_count = None\<rparr>"

section \<open>Notions used in the statements\<close>

text \<open>
  A map from strings to strings as an object (every value is a string), and the value
  \<open>fromFlatArray\<close> stores for a string: the parsed value when it parses, else the string.
\<close>

definition as_strings :: "(string \<times> string) list \<Rightarrow> jsobj" where
  "as_strings m = map (\<lambda>(k, v). (k, JStr v)) m"

definition reparse :: "lib \<Rightarrow> string \<Rightarrow> jsval" where
  "reparse js v = (case JSON_parse js v of Some j \<Rightarrow> j | None \<Rightarrow> JStr v)"

text \<open>
  A batch message is oversize when its encoded payload is longer than \<open>maxPayloadBytes\<close>.
  The payload an append to a log carries is read off the recorded command: the value
  that follows the \<open>payload\<close> key at the head of the fields. A command is within the
  bound when it carries no such payload or one of at most \<open>n\<close> bytes.
\<close>

definition oversize :: "lib \<Rightarrow> ChronowDefaults \<Rightarrow> batch_msg \<Rightarrow> bool" where
  "oversize js dflt msg = (length (JSON_stringify js (b_payload msg)) > maxPayloadBytes dflt)"

fun appended_payload :: "command \<Rightarrow> string option" where
  "appended_payload (XADD k (a # b # c # d # f # v # rest)) =
     (if f = ''payload'' then Some v else None)"
| "appended_payload _ = None"

definition payload_bounded :: "nat \<Rightarrow> command \<Rightarrow> bool" where
  "payload_bounded n c = (case appended_payload c of None \<Rightarrow> True | Some v \<Rightarrow> length v \<le> n)"

text \<open>
  The consumer of \<open>examples/retry-and-dlq.ts\<close>: every message the loop yields is answered
  with \<open>nack\<close>. The deliveries are the entries (id, payload, headers) that the reads
  return, in order; for each the result is the \<open>redeliveryCount\<close> of the handle and what
  \<open>nack\<close> returned. No options are passed to \<open>consume\<close>.
\<close>

fun nack_every_delivery ::
  "'s hot \<Rightarrow> 'w warm \<Rightarrow> lib \<Rightarrow> env \<Rightarrow> ChronowDefaults \<Rightarrow> string \<Rightarrow> string \<Rightarrow> SubscriptionState \<Rightarrow> bool
   \<Rightarrow> (string \<times> jsval \<times> jsval) list \<Rightarrow> ('s, 'w) world
   \<Rightarrow> (nat \<times> (error + unit)) list \<times> ('s, 'w) world" where
  "nack_every_delivery h wm js ev dflt topic subscription cfg requeue [] st = ([], st)"
| "nack_every_delivery h wm js ev dflt topic subscription cfg requeue
     ((msgId, payload, headers) # rest) st =
     (case deliver topic subscription
             (buildTopicKey topic (d_tenantId dflt) (d_namespace dflt) (d_keyPrefix dflt))
             (buildConsumerGroup subscription) cfg (d_namespace dflt) (d_tenantId dflt)
             msgId payload headers st of
        (msg, st1) \<Rightarrow>
          (case nack h wm js ev dflt msg requeue st1 of
             (r, st2) \<Rightarrow>
               (case nack_every_delivery h wm js ev dflt topic subscription cfg requeue rest st2 of
                  (outs, st3) \<Rightarrow> ((redeliveryCount msg, r) # outs, st3))))"

text \<open>
  The calls that write to the collections of the adapter, each with the clock reading
  it is made at where it reads the clock; the state a call leaves, whether it returns
  or throws; and the state a sequence of calls leaves.
\<close>

datatype adapter_call =
    Call_hset string string string
  | Call_zadd string real string
  | Call_zrem string "string list"
  | Call_xadd nat string "string list"
  | Call_xreadgroup nat "jarg list"
  | Call_xack string string "string list"
  | Call_xclaim nat string string string int "string list"
  | Call_xautoclaim nat string string string int string "jarg list"

fun step :: "lib \<Rightarrow> adapter_call \<Rightarrow> mongo \<Rightarrow> mongo" where
  "step js (Call_hset key field val) m = snd (hset m key field val)"
| "step js (Call_zadd key score member) m = snd (zadd m key score member)"
| "step js (Call_zrem key members) m = snd (zrem m key members)"
| "step js (Call_xadd now strm args) m = snd (xadd js m now strm args)"
| "step js (Call_xreadgroup now args) m = snd (xreadgroup js m now args)"
| "step js (Call_xack strm grp ids) m = snd (xack m strm grp ids)"
| "step js (Call_xclaim now strm grp consumer minIdleTime ids) m =
     snd (xclaim m now strm grp consumer minIdleTime ids)"
| "step js (Call_xautoclaim now strm grp consumer minIdleTime start args) m =
     snd (xautoclaim js m now strm grp consumer minIdleTime start args)"






text \<open>
  For the ids of the emulated log: the sequence numbers of a collection are in order
  when each is below the number of documents of its stream and millisecond; the clock
  has not run backwards when no timestamp is after the present reading; an append is
  untrimmed when it gives no effective \<open>MAXLEN\<close> or the log stays within it. \<open>new_doc\<close> is
  the document \<open>xadd\<close> inserts.
\<close>

definition seq_ok :: "sdoc list \<Rightarrow> bool" where
  "seq_ok docs = list_all (\<lambda>d. sequence d <
      length (filter (\<lambda>e. stream e = stream d \<and> timestamp e = timestamp d) docs)) docs"

definition not_after :: "nat \<Rightarrow> sdoc list \<Rightarrow> bool" where
  "not_after t docs = list_all (\<lambda>d. timestamp d \<le> t) docs"

definition untrimmed :: "lib \<Rightarrow> mongo \<Rightarrow> string \<Rightarrow> string list \<Rightarrow> bool" where
  "untrimmed js m strm args =
     (case fst (xadd_args js args 0) of
        None \<Rightarrow> True
      | Some n \<Rightarrow> n = 0 \<or>
          int (length (filter (\<lambda>d. stream d = keyPrefix m @ strm) (streamsCollection m))) < n)"

definition new_doc :: "lib \<Rightarrow> mongo \<Rightarrow> nat \<Rightarrow> string \<Rightarrow> string list \<Rightarrow> sdoc" where
  "new_doc js m now strm args =
     (let count = length (filter (\<lambda>d. stream d = keyPrefix m @ strm \<and> timestamp d = now)
                            (streamsCollection m))
      in \<lparr>oid = nextOid m, stream = keyPrefix m @ strm,
          doc_id = show_nat now @ ''-'' @ show_nat count, timestamp = now, sequence = count,
          doc_fields = xadd_fields (drop (snd (xadd_args js args 0)) args) [],
          pending = PendingArray\<rparr>)"

section \<open>Properties of the key namer\<close>

lemma colon_split_unique:
  assumes "CHR '':'' \<notin> set a" and "CHR '':'' \<notin> set b"
    and "a @ CHR '':'' # x = b @ CHR '':'' # y"
  shows "a = b \<and> x = y"
  using assms
proof (induction a arbitrary: b)
  case Nil
  then show ?case by (cases b) auto
next
  case (Cons c a)
  then show ?case by (cases b) auto
qed

lemma kind_str_no_colon: "CHR '':'' \<notin> set (kind_str k)"
  by (cases k) simp_all

lemma kind_str_inj: "kind_str k = kind_str k' \<Longrightarrow> k = k'"
  by (cases k; cases k') simp_all

lemma buildKey_inj:
  assumes t: "CHR '':'' \<notin> set (tenantId p)" "CHR '':'' \<notin> set (tenantId q)"
    and n: "CHR '':'' \<notin> set (namespace p)" "CHR '':'' \<notin> set (namespace q)"
    and eq: "buildKey p pfx = buildKey q pfx"
  shows "tenantId p = tenantId q \<and> namespace p = namespace q \<and> kind p = kind q \<and> name p = name q"
proof -
  from eq have e1: "tenantId p @ CHR '':'' # (namespace p @ '':'' @ kind_str (kind p) @ '':'' @ name p)
      = tenantId q @ CHR '':'' # (namespace q @ '':'' @ kind_str (kind q) @ '':'' @ name q)"
    by (simp add: buildKey_def)
  from colon_split_unique [OF t e1]
  have tq: "tenantId p = tenantId q"
    and e2: "namespace p @ CHR '':'' # (kind_str (kind p) @ '':'' @ name p)
      = namespace q @ CHR '':'' # (kind_str (kind q) @ '':'' @ name q)"
    by simp_all
  from colon_split_unique [OF n e2]
  have nq: "namespace p = namespace q"
    and e3: "kind_str (kind p) @ CHR '':'' # name p = kind_str (kind q) @ CHR '':'' # name q"
    by simp_all
  from colon_split_unique [OF kind_str_no_colon kind_str_no_colon e3]
  have "kind_str (kind p) = kind_str (kind q)" and nm: "name p = name q"
    by simp_all
  then have "kind p = kind q" by (simp add: kind_str_inj)
  with tq nq nm show ?thesis by simp
qed

text \<open>
  C7, the claim as stated fails: a namespace that contains \<open>:\<close> lets a key of kind
  \<open>topic\<close> coincide with the retry key of another topic and subscription, under the
  same prefix and tenant; a tenant that contains \<open>:\<close> does the same under the same
  prefix.
\<close>

theorem buildKey_kind_collision:
  "buildTopicKey ''orders:fraud'' ''t1'' ''ns:retry'' ''cw:''
     = buildRetryKey ''topic'' ''orders:fraud'' ''t1'' ''ns'' ''cw:''
   \<and> buildTopicKey ''orders'' ''t1:ns'' ''retry'' ''cw:''
     = buildRetryKey ''topic'' ''orders'' ''t1'' ''ns'' ''cw:''"
  by (simp add: buildTopicKey_def buildRetryKey_def buildKey_def)

text \<open>
  C7, amended: \<open>buildKey\<close> composes \<open><prefix><tenant>:<namespace>:<kind>:<name>\<close>, and
  under one key prefix, with tenant and namespace strings free of \<open>:\<close>, two keys of
  distinct kinds are never equal, whatever the names are (they may contain \<open>:\<close>, as
  the retry kind's name does).
\<close>

theorem buildKey_kinds_disjoint:
  "buildKey \<lparr>tenantId = t, namespace = n, kind = k, name = nm\<rparr> pfx
      = pfx @ t @ '':'' @ n @ '':'' @ kind_str k @ '':'' @ nm
   \<and> (CHR '':'' \<notin> set t \<and> CHR '':'' \<notin> set n \<and> CHR '':'' \<notin> set t' \<and> CHR '':'' \<notin> set n' \<and> k \<noteq> k'
      \<longrightarrow> buildKey \<lparr>tenantId = t, namespace = n, kind = k, name = nm\<rparr> pfx
        \<noteq> buildKey \<lparr>tenantId = t', namespace = n', kind = k', name = nm'\<rparr> pfx)"
proof (intro conjI impI)
  show "buildKey \<lparr>tenantId = t, namespace = n, kind = k, name = nm\<rparr> pfx
      = pfx @ t @ '':'' @ n @ '':'' @ kind_str k @ '':'' @ nm"
    by (simp add: buildKey_def)
next
  assume h: "CHR '':'' \<notin> set t \<and> CHR '':'' \<notin> set n \<and> CHR '':'' \<notin> set t' \<and> CHR '':'' \<notin> set n' \<and> k \<noteq> k'"
  show "buildKey \<lparr>tenantId = t, namespace = n, kind = k, name = nm\<rparr> pfx
        \<noteq> buildKey \<lparr>tenantId = t', namespace = n', kind = k', name = nm'\<rparr> pfx"
  proof
    assume "buildKey \<lparr>tenantId = t, namespace = n, kind = k, name = nm\<rparr> pfx
        = buildKey \<lparr>tenantId = t', namespace = n', kind = k', name = nm'\<rparr> pfx"
    with h buildKey_inj [of "\<lparr>tenantId = t, namespace = n, kind = k, name = nm\<rparr>"
        "\<lparr>tenantId = t', namespace = n', kind = k', name = nm'\<rparr>" pfx]
    show False by simp
  qed
qed

theorem buildKey_kinds_disjoint_witness:
  "CHR '':'' \<notin> set ''t1'' \<and> CHR '':'' \<notin> set ''ns'' \<and> Topic \<noteq> Retry
   \<and> buildKey \<lparr>tenantId = ''t1'', namespace = ''ns'', kind = Topic, name = ''orders:fraud''\<rparr> ''cw:''
      \<noteq> buildKey \<lparr>tenantId = ''t1'', namespace = ''ns'', kind = Retry, name = ''orders:fraud''\<rparr> ''cw:''"
proof -
  have "CHR '':'' \<notin> set ''t1'' \<and> CHR '':'' \<notin> set ''ns'' \<and> CHR '':'' \<notin> set ''t1''
      \<and> CHR '':'' \<notin> set ''ns'' \<and> Topic \<noteq> Retry
    \<longrightarrow> buildKey \<lparr>tenantId = ''t1'', namespace = ''ns'', kind = Topic, name = ''orders:fraud''\<rparr> ''cw:''
      \<noteq> buildKey \<lparr>tenantId = ''t1'', namespace = ''ns'', kind = Retry, name = ''orders:fraud''\<rparr> ''cw:''"
    by (rule conjunct2 [OF buildKey_kinds_disjoint])
  then show ?thesis by simp
qed

section \<open>Properties of the codec\<close>

lemma update_fresh: "k \<notin> fst ` set al \<Longrightarrow> AList.update k v al = al @ [(k, v)]"
  by (induction al) auto

lemma js_assign_fresh:
  "k \<noteq> ''__proto__'' \<Longrightarrow> k \<notin> fst ` set (props obj) \<Longrightarrow>
   js_assign k v obj = obj\<lparr>props := props obj @ [(k, v)]\<rparr>"
  by (simp add: js_assign_def update_fresh)

lemma fromFlatArray_loop_strings:
  "distinct (map fst m) \<Longrightarrow> fst ` set m \<inter> fst ` set (props acc) = {} \<Longrightarrow>
   ''__proto__'' \<notin> fst ` set m \<Longrightarrow>
   fromFlatArray_loop js (toFlatArray js (as_strings m)) acc
     = acc\<lparr>props := props acc @ map (\<lambda>(k, v). (k, reparse js v)) m\<rparr>"
proof (induction m arbitrary: acc)
  case Nil
  then show ?case by (simp add: as_strings_def)
next
  case (Cons kv m)
  obtain k v where kv: "kv = (k, v)" by (cases kv)
  let ?acc = "acc\<lparr>props := props acc @ [(k, reparse js v)]\<rparr>"
  from Cons.prems kv have fresh: "k \<notin> fst ` set (props acc)" and np: "k \<noteq> ''__proto__''"
    by auto
  have step: "fromFlatArray_loop js (toFlatArray js (as_strings (kv # m))) acc
      = fromFlatArray_loop js (toFlatArray js (as_strings m)) ?acc"
    using js_assign_fresh [OF np fresh] by (simp add: kv as_strings_def reparse_def)
  from Cons.prems kv have d: "distinct (map fst m)"
    and disj: "fst ` set m \<inter> fst ` set (props ?acc) = {}"
    and np': "''__proto__'' \<notin> fst ` set m"
    by auto
  show ?case
    unfolding step using Cons.IH [OF d disj np'] by (simp add: kv)
qed

lemma fromFlatArray_strings:
  "distinct (map fst m) \<Longrightarrow> ''__proto__'' \<notin> fst ` set m \<Longrightarrow>
   fromFlatArray js (toFlatArray js (as_strings m))
     = new_object (map (\<lambda>(k, v). (k, reparse js v)) m)"
  using fromFlatArray_loop_strings [of m "new_object []" js]
  by (simp add: fromFlatArray_def new_object_def)

lemma map_of_reparse:
  "map_of (map (\<lambda>(k, v). (k, reparse js v)) m) k = map_option (reparse js) (map_of m k)"
  by (induction m) auto

lemma reparse_id_iff:
  assumes "\<forall>s. JSON_parse js s \<noteq> Some (JStr s)"
  shows "map (\<lambda>(k, v). (k, reparse js v)) m = as_strings m
     \<longleftrightarrow> list_all (\<lambda>(k, v). JSON_parse js v = None) m"
proof (induction m)
  case Nil
  then show ?case by (simp add: as_strings_def)
next
  case (Cons kv m)
  obtain k v where kv: "kv = (k, v)" by (cases kv)
  have "reparse js v = JStr v \<longleftrightarrow> JSON_parse js v = None"
    using assms by (auto simp: reparse_def split: option.splits)
  with Cons show ?case by (simp add: kv as_strings_def)
qed

text \<open>
  C8, the claim as stated fails: for the object whose one key is \<open>__proto__\<close>, bound to
  the string \<open>x\<close> (which does not parse), \<open>fromFlatArray (toFlatArray m)\<close> is the empty
  object. The assignment \<open>obj['__proto__'] = 'x'\<close> runs the prototype setter, which drops
  a string: the key is bound to nothing and the round trip does not give \<open>m\<close> back.
\<close>

theorem flat_array_drops_proto_key:
  "JSON_parse sample_lib ''x'' = None
   \<and> fromFlatArray sample_lib (toFlatArray sample_lib (as_strings [(''__proto__'', ''x'')]))
       = new_object []
   \<and> map_of (props (fromFlatArray sample_lib
         (toFlatArray sample_lib (as_strings [(''__proto__'', ''x'')])))) ''__proto__'' = None
   \<and> fromFlatArray sample_lib (toFlatArray sample_lib (as_strings [(''__proto__'', ''x'')]))
       \<noteq> new_object (as_strings [(''__proto__'', ''x'')])"
  by (simp add: sample_lib_def sample_parse_def as_strings_def fromFlatArray_def new_object_def
      js_assign_def reaches_proto_setter_def)

text \<open>
  C8, amended: for an object \<open>m\<close> whose values are strings and that has no key
  \<open>__proto__\<close>, \<open>fromFlatArray (toFlatArray m)\<close> is a plain object that binds each key to
  the parsed value when the value parses and to the value itself otherwise; the round
  trip gives \<open>m\<close> back exactly when no value parses. The keys of an object are pairwise
  different, and \<open>JSON.parse\<close> never returns its own argument as a string (a text that
  parses to a string is that string in quotes).
\<close>

theorem flat_array_roundtrip:
  assumes "distinct (map fst m)" and "''__proto__'' \<notin> fst ` set m"
    and "\<forall>s. JSON_parse js s \<noteq> Some (JStr s)"
  shows "map_of (props (fromFlatArray js (toFlatArray js (as_strings m)))) k
           = (case map_of m k of
                None \<Rightarrow> None
              | Some v \<Rightarrow> Some (case JSON_parse js v of Some j \<Rightarrow> j | None \<Rightarrow> JStr v))
         \<and> proto (fromFlatArray js (toFlatArray js (as_strings m))) = ObjectPrototype
         \<and> (fromFlatArray js (toFlatArray js (as_strings m)) = new_object (as_strings m)
              \<longleftrightarrow> list_all (\<lambda>(k, v). JSON_parse js v = None) m)"
proof (intro conjI)
  show "map_of (props (fromFlatArray js (toFlatArray js (as_strings m)))) k
           = (case map_of m k of
                None \<Rightarrow> None
              | Some v \<Rightarrow> Some (case JSON_parse js v of Some j \<Rightarrow> j | None \<Rightarrow> JStr v))"
  proof -
    have "map_of (props (fromFlatArray js (toFlatArray js (as_strings m)))) k
        = map_option (reparse js) (map_of m k)"
      using assms(1,2) by (simp add: fromFlatArray_strings map_of_reparse new_object_def)
    then show ?thesis by (cases "map_of m k") (simp_all add: reparse_def)
  qed
  show "proto (fromFlatArray js (toFlatArray js (as_strings m))) = ObjectPrototype"
    using assms(1,2) by (simp add: fromFlatArray_strings new_object_def)
  show "fromFlatArray js (toFlatArray js (as_strings m)) = new_object (as_strings m)
              \<longleftrightarrow> list_all (\<lambda>(k, v). JSON_parse js v = None) m"
    using assms by (simp add: fromFlatArray_strings reparse_id_iff new_object_def)
qed

theorem flat_array_roundtrip_witness:
  "distinct (map fst [(''a'', ''123''), (''b'', ''true''), (''c'', ''hello'')])
   \<and> ''__proto__'' \<notin> fst ` set [(''a'', ''123''), (''b'', ''true''), (''c'', ''hello'')]
   \<and> (\<forall>s. JSON_parse sample_lib s \<noteq> Some (JStr s))
   \<and> map_of (props (fromFlatArray sample_lib (toFlatArray sample_lib
         (as_strings [(''a'', ''123''), (''b'', ''true''), (''c'', ''hello'')])))) ''a''
       = Some (JNum 123)
   \<and> map_of (props (fromFlatArray sample_lib (toFlatArray sample_lib
         (as_strings [(''a'', ''123''), (''b'', ''true''), (''c'', ''hello'')])))) ''c''
       = Some (JStr ''hello'')
   \<and> fromFlatArray sample_lib (toFlatArray sample_lib
         (as_strings [(''a'', ''123''), (''b'', ''true''), (''c'', ''hello'')]))
       \<noteq> new_object (as_strings [(''a'', ''123''), (''b'', ''true''), (''c'', ''hello'')])"
proof -
  have d: "distinct (map fst [(''a'', ''123''), (''b'', ''true''), (''c'', ''hello'')])" by simp
  have n: "''__proto__'' \<notin> fst ` set [(''a'', ''123''), (''b'', ''true''), (''c'', ''hello'')]"
    by simp
  have p: "\<forall>s. JSON_parse sample_lib s \<noteq> Some (JStr s)"
    by (simp add: sample_lib_def sample_parse_def)
  from flat_array_roundtrip [OF d n p, of "''a''"] flat_array_roundtrip [OF d n p, of "''c''"] d n p
  show ?thesis by (simp add: sample_lib_def sample_parse_def)
qed

section \<open>Properties of the emulated hot store\<close>

lemmas adapter_eval =
  xadd_def xreadgroup_def xack_def xclaim_def xautoclaim_def empty_mongo_def decimal_def trim_def
  limit_def sort_ts_seq_def Let_def show_nat.simps digit_char_def read_args_def indexOf_def
  js_index_def mark_pending_def entries_of_def unset_pending_def object_lt_date_def





lemma find_in_set: "find P xs = Some x \<Longrightarrow> x \<in> set xs"
  by (induction xs) (auto split: if_splits)

lemma mark_all_no_pending:
  assumes "list_all (\<lambda>d. pending d = PendingArray) docs"
  shows "snd (mark_all grp consumer now msgs docs) = docs"
proof (induction msgs)
  case Nil
  show ?case by simp
next
  case (Cons msg msgs)
  show ?case
  proof (cases "find (\<lambda>d. oid d = oid msg) docs")
    case None
    with Cons.IH show ?thesis by simp
  next
    case (Some d)
    from find_in_set [OF Some] assms have "pending d = PendingArray"
      by (simp add: list_all_iff)
    with Some show ?thesis by (simp add: mark_pending_def)
  qed
qed











text \<open>
  The first read of an appended entry: the query selects it, the marking is refused,
  and the read throws with the store unchanged. A claim of the entry throws in the same
  way; an automatic claim selects nothing.
\<close>

lemma read_of_appended_entry_is_refused:
  "(let js' = js\<lparr>Number_of := decimal\<rparr>;
        (i, m1) = xadd js' (empty_mongo ''cw:'') 5 ''t''
                    [''MAXLEN'', ''~'', ''100000'', ''*'', ''payload'', ''{}'']
    in i = ''5-0''
       \<and> map doc_id (streamsCollection m1) = [''5-0'']
       \<and> xreadgroup js' m1 6 (read_args ''sub:s1'' ''c1'' ''t'') = (Inl PathNotViable, m1)
       \<and> xclaim m1 40000 ''t'' ''sub:s1'' ''c2'' 30000 [i] = (Inl PathNotViable, m1)
       \<and> xautoclaim js' m1 40000 ''t'' ''sub:s1'' ''c2'' 30000 ''0-0'' [AStr ''COUNT'', ANum 10]
           = (Inr (''0-0'', []), m1))"
  by (simp add: adapter_eval)





text \<open>
  While no append trims and the clock does not run backwards, each new document is above
  every document of its log in \<open>(timestamp, sequence)\<close> order.
\<close>

lemma xadd_untrimmed:
  assumes "untrimmed js m strm args"
  shows "xadd js m now strm args
     = (doc_id (new_doc js m now strm args),
        m\<lparr>streamsCollection := streamsCollection m @ [new_doc js m now strm args],
          nextOid := Suc (nextOid m)\<rparr>)"
proof -
  obtain mx fs where p: "xadd_args js args 0 = (mx, fs)"
    by (cases "xadd_args js args 0")
  show ?thesis
  proof (cases mx)
    case None
    with p show ?thesis
      by (simp add: xadd_def new_doc_def Let_def)
  next
    case (Some n)
    with assms p have "n = 0 \<or>
        int (length (filter (\<lambda>d. stream d = keyPrefix m @ strm) (streamsCollection m))) < n"
      by (simp add: untrimmed_def)
    with Some p show ?thesis
      by (auto simp: xadd_def new_doc_def trim_def Let_def)
  qed
qed

lemma xadd_ids_increase_while_untrimmed:
  assumes u: "untrimmed js m strm args"
    and s: "seq_ok (streamsCollection m)"
    and t: "not_after now (streamsCollection m)"
  shows "seq_ok (streamsCollection (snd (xadd js m now strm args)))"
    and "not_after now (streamsCollection (snd (xadd js m now strm args)))"
    and "list_all (\<lambda>d. stream d = keyPrefix m @ strm \<longrightarrow>
            (timestamp d, sequence d)
              < (timestamp (new_doc js m now strm args), sequence (new_doc js m now strm args)))
          (streamsCollection m)"
proof -
  let ?n = "new_doc js m now strm args"
  let ?docs = "streamsCollection m"
  have docs': "streamsCollection (snd (xadd js m now strm args)) = ?docs @ [?n]"
    using xadd_untrimmed [OF u] by simp
  have old: "\<And>d. d \<in> set ?docs \<Longrightarrow> sequence d <
      length (filter (\<lambda>e. stream e = stream d \<and> timestamp e = timestamp d) ?docs)"
    using s by (simp add: seq_ok_def list_all_iff)
  show "seq_ok (streamsCollection (snd (xadd js m now strm args)))"
    unfolding docs' seq_ok_def list_all_iff
  proof
    fix d assume "d \<in> set (?docs @ [?n])"
    then consider "d \<in> set ?docs" | "d = ?n" by auto
    then show "sequence d <
        length (filter (\<lambda>e. stream e = stream d \<and> timestamp e = timestamp d) (?docs @ [?n]))"
    proof cases
      case 1
      from old [OF 1] show ?thesis by simp
    next
      case 2
      then show ?thesis by (simp add: new_doc_def Let_def)
    qed
  qed
  show "not_after now (streamsCollection (snd (xadd js m now strm args)))"
    using t unfolding docs' by (simp add: not_after_def new_doc_def Let_def)
  show "list_all (\<lambda>d. stream d = keyPrefix m @ strm \<longrightarrow>
            (timestamp d, sequence d) < (timestamp ?n, sequence ?n)) ?docs"
    unfolding list_all_iff
  proof (intro ballI impI)
    fix d assume d: "d \<in> set ?docs" and st: "stream d = keyPrefix m @ strm"
    from t d have le: "timestamp d \<le> now" by (simp add: not_after_def list_all_iff)
    show "(timestamp d, sequence d) < (timestamp ?n, sequence ?n)"
    proof (cases "timestamp d = now")
      case True
      from old [OF d] st True
      have "sequence d < length (filter (\<lambda>e. stream e = keyPrefix m @ strm \<and> timestamp e = now) ?docs)"
        by simp
      with True show ?thesis by (simp add: new_doc_def Let_def less_prod_def)
    next
      case False
      with le have "timestamp d < now" by simp
      then show ?thesis by (simp add: new_doc_def Let_def less_prod_def)
    qed
  qed
qed

text \<open>
  C6, the code at a failing input: three appends to one log within the millisecond \<open>5\<close>,
  with \<open>MAXLEN 1\<close>. The second append trims \<open>5-0\<close> away; the third counts one document
  with timestamp \<open>5\<close> and is given the id \<open>5-1\<close> again.
\<close>

theorem xadd_repeats_id_after_trim:
  "(let js' = js\<lparr>Number_of := decimal\<rparr>;
        args = [''MAXLEN'', ''~'', ''1'', ''*'', ''payload'', ''{}''];
        (i1, m1) = xadd js' (empty_mongo ''cw:'') 5 ''t'' args;
        (i2, m2) = xadd js' m1 5 ''t'' args;
        (i3, m3) = xadd js' m2 5 ''t'' args
    in i1 = ''5-0'' \<and> i2 = ''5-1'' \<and> i3 = ''5-1''
       \<and> map doc_id (streamsCollection m2) = [''5-1''])"
  by (simp add: adapter_eval)

section \<open>Properties of the producer and of the inspection operations\<close>

lemma batch_loop_hot:
  "hot (snd (batch_loop wm js ev dflt topic tenant pw msgs pipeline warmSaves st)) = hot st"
proof (induction msgs arbitrary: pipeline warmSaves st pw)
  case Nil
  then show ?case by simp
next
  case (Cons msg msgs)
  show ?case
    by (simp add: Let_def warm_call_def Cons.IH split: prod.splits)
qed

lemma batch_loop_oversize:
  "list_ex (oversize js dflt) msgs \<Longrightarrow>
   \<exists>n. fst (batch_loop wm js ev dflt topic tenant pw msgs pipeline warmSaves st)
         = Inl (PayloadTooLarge n (maxPayloadBytes dflt))"
proof (induction msgs arbitrary: pipeline warmSaves st pw)
  case Nil
  then show ?case by simp
next
  case (Cons msg msgs)
  show ?case
  proof (cases "oversize js dflt msg")
    case True
    then show ?thesis by (simp add: oversize_def Let_def)
  next
    case False
    with Cons.prems have "list_ex (oversize js dflt) msgs" by simp
    from Cons.IH [OF this] False show ?thesis
      by (simp add: oversize_def Let_def split: prod.splits)
  qed
qed

lemma appended_payload_publish:
  "appended_payload (XADD k (xadd_command js n (publish_entry js ev payload headers)))
     = Some (JSON_stringify js payload)"
  by (simp add: xadd_command_def publish_entry_def)

lemma publish_recorded:
  "list_all (payload_bounded (maxPayloadBytes dflt)) (hot st) \<Longrightarrow>
   list_all (payload_bounded (maxPayloadBytes dflt))
     (hot (snd (publish recording_hot wm js ev dflt topic payload os st)))"
  by (simp add: publish_def Let_def andThen_def hot_call_def warm_call_def recording_hot_def
      payload_bounded_def appended_payload_publish split: prod.splits sum.splits)

lemma batch_loop_pipeline:
  "batch_loop wm js ev dflt topic tenant pw msgs pipeline warmSaves st = (Inr (pl, ws), st') \<Longrightarrow>
   list_all (\<lambda>cmd. payload_bounded (maxPayloadBytes dflt) (XADD k cmd)) pipeline \<Longrightarrow>
   list_all (\<lambda>cmd. payload_bounded (maxPayloadBytes dflt) (XADD k cmd)) pl"
proof (induction msgs arbitrary: pipeline warmSaves st pw)
  case Nil
  then show ?case by simp
next
  case (Cons msg msgs)
  let ?hs = "case b_headers msg of None \<Rightarrow> JObj [] | Some hs \<Rightarrow> hs"
  let ?cmd = "xadd_command js (maxStreamLen dflt) (publish_entry js ev (b_payload msg) ?hs)"
  from Cons.prems(1) have fits: "\<not> length (JSON_stringify js (b_payload msg)) > maxPayloadBytes dflt"
    by (auto simp: Let_def split: if_splits)
  then have ok: "list_all (\<lambda>cmd. payload_bounded (maxPayloadBytes dflt) (XADD k cmd)) (pipeline @ [?cmd])"
    using Cons.prems(2) by (simp add: payload_bounded_def appended_payload_publish)
  show ?case
  proof (cases pw)
    case True
    obtain r st1 where w: "warm_call (saveMessage wm js ev topic [] (b_payload msg) ?hs (Some tenant)) st = (r, st1)"
      by (cases "warm_call (saveMessage wm js ev topic [] (b_payload msg) ?hs (Some tenant)) st")
    from Cons.prems(1) fits True w
    have "batch_loop wm js ev dflt topic tenant pw msgs (pipeline @ [?cmd]) (warmSaves @ [r]) st1 = (Inr (pl, ws), st')"
      by (simp add: Let_def)
    from Cons.IH [OF this ok] show ?thesis .
  next
    case False
    from Cons.prems(1) fits False
    have "batch_loop wm js ev dflt topic tenant pw msgs (pipeline @ [?cmd]) warmSaves st = (Inr (pl, ws), st')"
      by (simp add: Let_def)
    from Cons.IH [OF this ok] show ?thesis .
  qed
qed

lemma recording_xadd:
  "hot_call (h_xadd recording_hot k cmd) st = (Inr ''0-0'', st\<lparr>hot := hot st @ [XADD k cmd]\<rparr>)"
  by (simp add: hot_call_def recording_hot_def)

lemma pipeline_exec_recorded:
  "hot (snd (pipeline_exec recording_hot k pl st)) = hot st @ map (XADD k) pl"
proof (induction pl arbitrary: st)
  case Nil
  then show ?case by simp
next
  case (Cons cmd pl)
  obtain rs st' where e:
    "pipeline_exec recording_hot k pl (st\<lparr>hot := hot st @ [XADD k cmd]\<rparr>) = (rs, st')"
    by (cases "pipeline_exec recording_hot k pl (st\<lparr>hot := hot st @ [XADD k cmd]\<rparr>)")
  from Cons.IH [of "st\<lparr>hot := hot st @ [XADD k cmd]\<rparr>"] e
  have "hot st' = hot st @ XADD k cmd # map (XADD k) pl" by simp
  then show ?case using e by (simp add: recording_xadd)
qed

lemma publishBatch_recorded:
  assumes "list_all (payload_bounded (maxPayloadBytes dflt)) (hot st)"
  shows "list_all (payload_bounded (maxPayloadBytes dflt))
     (hot (snd (publishBatch recording_hot wm js ev dflt topic msgs os st)))"
proof -
  let ?k = "buildTopicKey topic (tenant_of dflt os) (ns_of dflt os) (d_keyPrefix dflt)"
  let ?b = "batch_loop wm js ev dflt topic (tenant_of dflt os) (persistWarmCopy os) msgs [] [] st"
  obtain r st1 where b: "?b = (r, st1)" by (cases ?b)
  have h1: "hot st1 = hot st" using batch_loop_hot [of wm js ev dflt topic "tenant_of dflt os" "persistWarmCopy os" msgs "[]" "[]" st] b by simp
  show ?thesis
  proof (cases r)
    case (Inl e)
    with b h1 assms show ?thesis by (simp add: publishBatch_def Let_def)
  next
    case (Inr pw)
    obtain pl ws where pw: "pw = (pl, ws)" by (cases pw)
    from b Inr pw have "?b = (Inr (pl, ws), st1)" by simp
    from batch_loop_pipeline [OF this, of ?k]
    have ok: "list_all (\<lambda>cmd. payload_bounded (maxPayloadBytes dflt) (XADD ?k cmd)) pl" by simp
    obtain results st2 where e: "pipeline_exec recording_hot ?k pl st1 = (results, st2)"
      by (cases "pipeline_exec recording_hot ?k pl st1")
    have "hot st2 = hot st @ map (XADD ?k) pl"
      using pipeline_exec_recorded [of ?k pl st1] e h1 by simp
    with assms ok have fin: "list_all (payload_bounded (maxPayloadBytes dflt)) (hot st2)"
      by (auto simp: list_all_iff)
    from b Inr pw e fin show ?thesis
      by (simp add: publishBatch_def Let_def split: sum.splits)
  qed
qed

text \<open>
  C5: a payload whose JSON encoding is longer than \<open>maxPayloadBytes\<close> makes \<open>publish\<close> fail
  with the payload-too-large error and leaves every state as it was; a batch that holds
  such a message makes \<open>publishBatch\<close> fail with that error before the pipeline runs, and
  the hot store (the log) is as it was. On the record of appends, \<open>publish\<close> and
  \<open>publishBatch\<close> keep every appended payload within \<open>maxPayloadBytes\<close>.
\<close>

theorem oversize_publish_leaves_log:
  "(length (JSON_stringify js payload) > maxPayloadBytes dflt \<longrightarrow>
      publish h wm js ev dflt topic payload os st
        = (Inl (PayloadTooLarge (length (JSON_stringify js payload)) (maxPayloadBytes dflt)), st))
   \<and> (list_ex (oversize js dflt) messages \<longrightarrow>
        (\<exists>n. fst (publishBatch h wm js ev dflt topic messages os st)
               = Inl (PayloadTooLarge n (maxPayloadBytes dflt)))
        \<and> hot (snd (publishBatch h wm js ev dflt topic messages os st)) = hot st)
   \<and> (list_all (payload_bounded (maxPayloadBytes dflt)) (hot rs) \<longrightarrow>
        list_all (payload_bounded (maxPayloadBytes dflt))
          (hot (snd (publish recording_hot wm' js ev dflt topic payload' os rs)))
        \<and> list_all (payload_bounded (maxPayloadBytes dflt))
          (hot (snd (publishBatch recording_hot wm' js ev dflt topic messages' os rs))))"
proof (intro conjI impI)
  assume "length (JSON_stringify js payload) > maxPayloadBytes dflt"
  then show "publish h wm js ev dflt topic payload os st
        = (Inl (PayloadTooLarge (length (JSON_stringify js payload)) (maxPayloadBytes dflt)), st)"
    by (simp add: publish_def Let_def)
next
  assume ex: "list_ex (oversize js dflt) messages"
  let ?r = "batch_loop wm js ev dflt topic (tenant_of dflt os) (persistWarmCopy os) messages [] [] st"
  from batch_loop_oversize [OF ex]
  obtain n where n: "fst ?r = Inl (PayloadTooLarge n (maxPayloadBytes dflt))" by blast
  then have r: "?r = (Inl (PayloadTooLarge n (maxPayloadBytes dflt)), snd ?r)"
    by (metis prod.collapse)
  have pb: "publishBatch h wm js ev dflt topic messages os st
      = (Inl (PayloadTooLarge n (maxPayloadBytes dflt)), snd ?r)"
    unfolding publishBatch_def Let_def by (subst r) simp
  show "\<exists>n. fst (publishBatch h wm js ev dflt topic messages os st)
               = Inl (PayloadTooLarge n (maxPayloadBytes dflt))"
    using pb by simp
  show "hot (snd (publishBatch h wm js ev dflt topic messages os st)) = hot st"
    using pb by (simp add: batch_loop_hot)
next
  assume "list_all (payload_bounded (maxPayloadBytes dflt)) (hot rs)"
  then show "list_all (payload_bounded (maxPayloadBytes dflt))
          (hot (snd (publish recording_hot wm' js ev dflt topic payload' os rs)))"
    by (rule publish_recorded)
next
  assume "list_all (payload_bounded (maxPayloadBytes dflt)) (hot rs)"
  then show "list_all (payload_bounded (maxPayloadBytes dflt))
          (hot (snd (publishBatch recording_hot wm' js ev dflt topic messages' os rs)))"
    by (rule publishBatch_recorded)
qed

theorem oversize_publish_leaves_log_witness:
  "length (JSON_stringify sample_lib JNull) > maxPayloadBytes (default_config\<lparr>maxPayloadBytes := 3\<rparr>)
   \<and> publish (mongoHot sample_lib 7) stub_warm sample_lib sample_env
        (default_config\<lparr>maxPayloadBytes := 3\<rparr>) ''orders'' JNull
        \<lparr>o_namespace = None, o_tenantId = None, persistWarmCopy = True, o_headers = None\<rparr>
        (start_world (empty_mongo ''cw:''))
      = (Inl (PayloadTooLarge 4 3), start_world (empty_mongo ''cw:''))
   \<and> list_ex (oversize sample_lib (default_config\<lparr>maxPayloadBytes := 3\<rparr>))
        [\<lparr>b_payload = JObj [], b_headers = None\<rparr>, \<lparr>b_payload = JNull, b_headers = None\<rparr>]
   \<and> hot (snd (publishBatch (mongoHot sample_lib 7) stub_warm sample_lib sample_env
        (default_config\<lparr>maxPayloadBytes := 3\<rparr>) ''orders''
        [\<lparr>b_payload = JObj [], b_headers = None\<rparr>, \<lparr>b_payload = JNull, b_headers = None\<rparr>]
        \<lparr>o_namespace = None, o_tenantId = None, persistWarmCopy = True, o_headers = None\<rparr>
        (start_world (empty_mongo ''cw:''))))
      = empty_mongo ''cw:''
   \<and> list_all (payload_bounded (maxPayloadBytes (default_config\<lparr>maxPayloadBytes := 3\<rparr>)))
        (hot (start_world []))
   \<and> list_all (payload_bounded 3)
        (hot (snd (publish recording_hot stub_warm sample_lib sample_env
           (default_config\<lparr>maxPayloadBytes := 3\<rparr>) ''orders'' (JObj [])
           \<lparr>o_namespace = None, o_tenantId = None, persistWarmCopy = True, o_headers = None\<rparr>
           (start_world []))))
   \<and> list_all (payload_bounded 3)
        (hot (snd (publishBatch recording_hot stub_warm sample_lib sample_env
           (default_config\<lparr>maxPayloadBytes := 3\<rparr>) ''orders''
           [\<lparr>b_payload = JObj [], b_headers = None\<rparr>, \<lparr>b_payload = JArr [], b_headers = None\<rparr>]
           \<lparr>o_namespace = None, o_tenantId = None, persistWarmCopy = True, o_headers = None\<rparr>
           (start_world []))))
   \<and> length (hot (snd (publishBatch recording_hot stub_warm sample_lib sample_env
           (default_config\<lparr>maxPayloadBytes := 3\<rparr>) ''orders''
           [\<lparr>b_payload = JObj [], b_headers = None\<rparr>, \<lparr>b_payload = JArr [], b_headers = None\<rparr>]
           \<lparr>o_namespace = None, o_tenantId = None, persistWarmCopy = True, o_headers = None\<rparr>
           (start_world [])))) = 2"
proof -
  have main:
    "length (JSON_stringify sample_lib JNull) > maxPayloadBytes (default_config\<lparr>maxPayloadBytes := 3\<rparr>)
     \<and> publish (mongoHot sample_lib 7) stub_warm sample_lib sample_env
          (default_config\<lparr>maxPayloadBytes := 3\<rparr>) ''orders'' JNull
          \<lparr>o_namespace = None, o_tenantId = None, persistWarmCopy = True, o_headers = None\<rparr>
          (start_world (empty_mongo ''cw:''))
        = (Inl (PayloadTooLarge 4 3), start_world (empty_mongo ''cw:''))
     \<and> list_ex (oversize sample_lib (default_config\<lparr>maxPayloadBytes := 3\<rparr>))
          [\<lparr>b_payload = JObj [], b_headers = None\<rparr>, \<lparr>b_payload = JNull, b_headers = None\<rparr>]
     \<and> hot (snd (publishBatch (mongoHot sample_lib 7) stub_warm sample_lib sample_env
          (default_config\<lparr>maxPayloadBytes := 3\<rparr>) ''orders''
          [\<lparr>b_payload = JObj [], b_headers = None\<rparr>, \<lparr>b_payload = JNull, b_headers = None\<rparr>]
          \<lparr>o_namespace = None, o_tenantId = None, persistWarmCopy = True, o_headers = None\<rparr>
          (start_world (empty_mongo ''cw:''))))
        = empty_mongo ''cw:''
     \<and> list_all (payload_bounded (maxPayloadBytes (default_config\<lparr>maxPayloadBytes := 3\<rparr>)))
          (hot (start_world []))
     \<and> list_all (payload_bounded 3)
          (hot (snd (publish recording_hot stub_warm sample_lib sample_env
             (default_config\<lparr>maxPayloadBytes := 3\<rparr>) ''orders'' (JObj [])
             \<lparr>o_namespace = None, o_tenantId = None, persistWarmCopy = True, o_headers = None\<rparr>
             (start_world []))))
     \<and> list_all (payload_bounded 3)
          (hot (snd (publishBatch recording_hot stub_warm sample_lib sample_env
             (default_config\<lparr>maxPayloadBytes := 3\<rparr>) ''orders''
             [\<lparr>b_payload = JObj [], b_headers = None\<rparr>, \<lparr>b_payload = JArr [], b_headers = None\<rparr>]
             \<lparr>o_namespace = None, o_tenantId = None, persistWarmCopy = True, o_headers = None\<rparr>
             (start_world []))))"
    using oversize_publish_leaves_log [where dflt = "default_config\<lparr>maxPayloadBytes := 3\<rparr>"
        and js = sample_lib and payload = JNull
        and messages = "[\<lparr>b_payload = JObj [], b_headers = None\<rparr>, \<lparr>b_payload = JNull, b_headers = None\<rparr>]"
        and h = "mongoHot sample_lib 7" and wm = stub_warm and ev = sample_env and topic = "''orders''"
        and os = "\<lparr>o_namespace = None, o_tenantId = None, persistWarmCopy = True, o_headers = None\<rparr>"
        and st = "start_world (empty_mongo ''cw:'')"
        and rs = "start_world []" and wm' = stub_warm and payload' = "JObj []"
        and messages' = "[\<lparr>b_payload = JObj [], b_headers = None\<rparr>, \<lparr>b_payload = JArr [], b_headers = None\<rparr>]"]
    by (simp add: sample_lib_def sample_stringify_def default_config_def oversize_def start_world_def)
  have len:
    "length (hot (snd (publishBatch recording_hot stub_warm sample_lib sample_env
             (default_config\<lparr>maxPayloadBytes := 3\<rparr>) ''orders''
             [\<lparr>b_payload = JObj [], b_headers = None\<rparr>, \<lparr>b_payload = JArr [], b_headers = None\<rparr>]
             \<lparr>o_namespace = None, o_tenantId = None, persistWarmCopy = True, o_headers = None\<rparr>
             (start_world [])))) = 2"
    by (simp add: publishBatch_def recording_xadd warm_call_def saveMessage_def
        stub_warm_def Let_def sample_lib_def sample_stringify_def default_config_def start_world_def)
  from main len show ?thesis by simp
qed

text \<open>
  C10: \<open>getStats\<close>, \<open>getDlqLength\<close> and \<open>peekDlq\<close> each make one call to the hot store and
  change nothing else (the state they leave is the one that call left); when the call
  throws they return \<open>{topic, length: 0, groups: 0}\<close>, \<open>0\<close> and the empty list.
\<close>

theorem inspection_swallows_store_errors:
  "snd (getStats h dflt topic os st)
      = st\<lparr>hot := snd (h_xinfo h ''STREAM''
             (buildTopicKey topic (tenant_of dflt os) (ns_of dflt os) (d_keyPrefix dflt)) (hot st))\<rparr>
   \<and> (fst (h_xinfo h ''STREAM''
             (buildTopicKey topic (tenant_of dflt os) (ns_of dflt os) (d_keyPrefix dflt)) (hot st)) = Inl e
        \<longrightarrow> fst (getStats h dflt topic os st) = \<lparr>s_topic = topic, s_length = JNum 0, s_groups = JNum 0\<rparr>)
   \<and> snd (getDlqLength h dflt topic os st)
      = st\<lparr>hot := snd (h_xlen h
             (buildDlqKey topic (tenant_of dflt os) (ns_of dflt os) (d_keyPrefix dflt)) (hot st))\<rparr>
   \<and> (fst (h_xlen h
             (buildDlqKey topic (tenant_of dflt os) (ns_of dflt os) (d_keyPrefix dflt)) (hot st)) = Inl e
        \<longrightarrow> fst (getDlqLength h dflt topic os st) = 0)
   \<and> snd (peekDlq h js dflt topic lmt os st)
      = st\<lparr>hot := snd (h_xrange h
             (buildDlqKey topic (tenant_of dflt os) (ns_of dflt os) (d_keyPrefix dflt))
             ''-'' ''+'' [AStr ''COUNT'', ANum lmt] (hot st))\<rparr>
   \<and> (fst (h_xrange h
             (buildDlqKey topic (tenant_of dflt os) (ns_of dflt os) (d_keyPrefix dflt))
             ''-'' ''+'' [AStr ''COUNT'', ANum lmt] (hot st)) = Inl e
        \<longrightarrow> fst (peekDlq h js dflt topic lmt os st) = [])"
  by (simp add: getStats_def getDlqLength_def peekDlq_def hot_call_def Let_def
      split: prod.splits sum.splits)

theorem inspection_swallows_store_errors_witness:
  "fst (h_xinfo failing_hot ''STREAM''
          (buildTopicKey ''orders'' (tenant_of default_config no_opts) (ns_of default_config no_opts)
             (d_keyPrefix default_config)) (hot (start_world ()))) = Inl (StoreError ''down'')
   \<and> getStats failing_hot default_config ''orders'' no_opts (start_world ())
        = (\<lparr>s_topic = ''orders'', s_length = JNum 0, s_groups = JNum 0\<rparr>, start_world ())
   \<and> getDlqLength failing_hot default_config ''orders'' no_opts (start_world ()) = (0, start_world ())
   \<and> peekDlq failing_hot sample_lib default_config ''orders'' 10 no_opts (start_world ())
        = ([], start_world ())"
  using inspection_swallows_store_errors [where h = failing_hot and dflt = default_config
      and topic = "''orders''" and os = no_opts and st = "start_world ()"
      and e = "StoreError ''down''" and js = sample_lib and lmt = 10]
  by (simp add: failing_hot_def prod_eq_iff)

section \<open>Properties of the retry path\<close>

lemmas broker_eval =
  nack_def deliver_def deliveries_of_def scheduleRetry_def sendToDeadLetter_def saveDeadLetter_def
  hot_call_def warm_call_def andThen_def recording_hot_def stub_warm_def default_config_def
  start_world_def no_opts_def handle_opts_def ns_of_def tenant_of_def buildRetryKey_def
  buildDlqKey_def buildTopicKey_def buildKey_def buildConsumerGroup_def calculateBackoff_def
  num_or_def num_or_default_def js_index_def warm_tenant_def xadd_command_def
  scenario_config_def default_subscription_def delete_count_def Let_def
  show_nat.simps digit_char_def

text \<open>
  What \<open>calculateBackoff\<close> guarantees: with jitter in \<open>[0, 1)\<close> the delay lies between the
  base delay and 1.2 times the base delay, where the base delay is the entry at index
  \<open>min(attempt, len - 1)\<close>.
\<close>

lemma calculateBackoff_bounds:
  assumes "0 \<le> rnd" and "rnd < 1"
    and "js_index backoffMs (min attempt (int (length backoffMs) - 1)) = Some b" and "0 < b"
  shows "b \<le> calculateBackoff rnd attempt backoffMs True"
    and "calculateBackoff rnd attempt backoffMs True \<le> 1.2 * b"
proof -
  have eq: "calculateBackoff rnd attempt backoffMs True = b + rnd * (b * 0.2)"
    using assms(3,4) by (simp add: calculateBackoff_def num_or_def num_or_default_def Let_def)
  have "0 \<le> rnd * (b * 0.2)" using assms(1,4) by simp
  then show "b \<le> calculateBackoff rnd attempt backoffMs True" using eq by simp
  have "rnd * (b * 0.2) \<le> 1 * (b * 0.2)"
    using assms(2,4) by (intro mult_right_mono) simp_all
  then show "calculateBackoff rnd attempt backoffMs True \<le> 1.2 * b" using eq by simp
qed

text \<open>\<open>nack\<close> passes the delivery count as the attempt, and that count is never below 1.\<close>

lemma deliveries_of_positive: "1 \<le> deliveries_of st msgId"
  by (simp add: deliveries_of_def split: option.splits)

text \<open>
  C4, the code at a failing input: the first \<open>nack{requeue:true}\<close> of a message under the
  default backoff list \<open>[1000, 5000, 30000]\<close>, at clock reading 7 and jitter \<open>rnd\<close>. The
  attempt is the delivery count 1, \<open>calculateBackoff\<close> indexes the list with it, and the
  score written to the retry set is \<open>7 + 5000 + rnd * 1000\<close>: the delay is at least 5000,
  above the 1200 that 1.2 times \<open>backoff[min(attempt - 1, len - 1)]\<close> allows.
\<close>

theorem first_retry_skips_first_backoff:
  "(let (msg, st1) = deliver ''orders'' ''fraud''
                       (buildTopicKey ''orders'' ''default'' ''default'' ''cw:'')
                       (buildConsumerGroup ''fraud'') default_subscription ''default'' ''default''
                       ''5-0'' p hs (start_world []);
        (r, st2) = nack recording_hot stub_warm js \<lparr>nowMs = 7, random = rnd, isoNow = stamp\<rparr>
                     default_config msg True st1
    in r = Inr ()
       \<and> hot st2 =
           [ZADD ''cw:default:default:retry:orders:fraud'' (7 + (5000 + rnd * 1000))
              (JSON_stringify js (retry_entry ''5-0'' p hs 1 (7 + (5000 + rnd * 1000)))),
            XACK ''cw:default:default:topic:orders'' ''sub:fraud'' [''5-0'']])"
  by (simp add: broker_eval mult.commute)

text \<open>
  The counter does its work when the same id comes back: delivered three times under
  \<open>maxDeliveries = 3\<close>, the handles carry \<open>redeliveryCount\<close> 0, 1, 2 and a \<open>nack\<close> of the
  third, with or without \<open>requeue\<close>, appends to the dead-letter log with the reason
  "Max deliveries exceeded", acks the id and drops its counter.
\<close>

lemma redelivered_id_is_dead_lettered_at_max:
  "(let dl = deliver ''orders'' ''fraud''
               (buildTopicKey ''orders'' ''default'' ''default'' ''cw:'')
               (buildConsumerGroup ''fraud'') scenario_config ''default'' ''default'' ''1-0'' p hs;
        (msg1, st1) = dl (start_world []);
        (msg2, st2) = dl st1;
        (msg3, st3) = dl st2;
        (r, st4) = nack recording_hot stub_warm js \<lparr>nowMs = 7, random = rnd, isoNow = stamp\<rparr>
                     default_config msg3 requeue st3
    in map redeliveryCount [msg1, msg2, msg3] = [0, 1, 2]
       \<and> r = Inr ()
       \<and> hot st4 =
           [XADD ''cw:default:default:dlq:orders''
              ([''MAXLEN'', ''~'', ''100000'', ''*''] @ toFlatArray js
                 [(''originalMsgId'', JStr ''1-0''),
                  (''payload'', JStr (JSON_stringify js p)),
                  (''headers'', JStr (JSON_stringify js hs)),
                  (''reason'', JStr ''Max deliveries exceeded''),
                  (''deliveries'', JStr ''3''),
                  (''failedAt'', JStr stamp)]),
            XACK ''cw:default:default:topic:orders'' ''sub:fraud'' [''1-0'']]
       \<and> deliveryCounts st4 ''1-0'' = None)"
  by (simp add: broker_eval)

text \<open>
  A drained retry re-enters the topic log as a new entry: for a retry as \<open>scheduleRetry\<close>
  wrote it, the loop of \<open>processRetries\<close> appends with the id \<open>*\<close> (the log assigns it)
  an entry that carries \<open>retryOf\<close> and \<open>attempt\<close>, then removes the retry from the set.
\<close>

lemma drained_retry_is_appended_as_new_entry:
  "requeue_all recording_hot js dflt topic subscription topicKey os
     [retry_entry msgId payload headers (int attempt) nextRetryMs] s
   = (Inr (),
      s @ [XADD topicKey
             [''MAXLEN'', ''~'', ''100000'', ''*'',
              ''payload'', JSON_stringify js payload,
              ''headers'', JSON_stringify js headers,
              ''retryOf'', msgId,
              ''attempt'', show_nat attempt],
           ZREM (buildRetryKey topic subscription (tenant_of dflt os) (ns_of dflt os)
                   (d_keyPrefix dflt))
             [JSON_stringify js (retry_entry msgId payload headers (int attempt) nextRetryMs)]])"
  by (simp add: retry_log_entry_def retry_entry_def js_prop_def removeRetry_def andThen_def
      recording_hot_def xadd_command_def show_int_def Let_def show_nat.simps [of 100000]
      show_nat.simps [of 10000] show_nat.simps [of 1000] show_nat.simps [of 100]
      show_nat.simps [of 10] show_nat.simps [of 1] show_nat.simps [of "Suc 0"] digit_char_def)

text \<open>
  C1, the code at a failing input: \<open>maxDeliveries = 3\<close>; a message and its drained
  retries reach the consumer under the ids the log gave them, \<open>1-0\<close> to \<open>4-0\<close>, and each
  delivery is answered with \<open>nack{requeue:true}\<close>. Every handle has \<open>redeliveryCount\<close> 0;
  every \<open>nack\<close> finds the delivery count 1, schedules one more retry and acks. The
  commands issued in four deliveries and four nacks hold no append to the dead-letter
  log. A \<open>nack{requeue:false}\<close> of the first delivery issues no command at all.
\<close>

theorem requeued_message_is_never_dead_lettered:
  "(let ev = \<lparr>nowMs = 7, random = rnd, isoNow = stamp\<rparr>;
        (outs, st) = nack_every_delivery recording_hot stub_warm js ev default_config
                       ''orders'' ''fraud'' scenario_config True
                       [(''1-0'', p, hs), (''2-0'', p, hs), (''3-0'', p, hs), (''4-0'', p, hs)]
                       (start_world []);
        (outs', st') = nack_every_delivery recording_hot stub_warm js ev default_config
                       ''orders'' ''fraud'' scenario_config False [(''1-0'', p, hs)]
                       (start_world [])
    in map fst outs = [0, 0, 0, 0]
       \<and> map snd outs = [Inr (), Inr (), Inr (), Inr ()]
       \<and> hot st =
           [ZADD ''cw:default:default:retry:orders:fraud'' (7 + (200 + rnd * 40))
              (JSON_stringify js (retry_entry ''1-0'' p hs 1 (7 + (200 + rnd * 40)))),
            XACK ''cw:default:default:topic:orders'' ''sub:fraud'' [''1-0''],
            ZADD ''cw:default:default:retry:orders:fraud'' (7 + (200 + rnd * 40))
              (JSON_stringify js (retry_entry ''2-0'' p hs 1 (7 + (200 + rnd * 40)))),
            XACK ''cw:default:default:topic:orders'' ''sub:fraud'' [''2-0''],
            ZADD ''cw:default:default:retry:orders:fraud'' (7 + (200 + rnd * 40))
              (JSON_stringify js (retry_entry ''3-0'' p hs 1 (7 + (200 + rnd * 40)))),
            XACK ''cw:default:default:topic:orders'' ''sub:fraud'' [''3-0''],
            ZADD ''cw:default:default:retry:orders:fraud'' (7 + (200 + rnd * 40))
              (JSON_stringify js (retry_entry ''4-0'' p hs 1 (7 + (200 + rnd * 40)))),
            XACK ''cw:default:default:topic:orders'' ''sub:fraud'' [''4-0'']]
       \<and> outs' = [(0, Inr ())]
       \<and> hot st' = [])"
  by (simp add: broker_eval mult.commute)

end
